theory Spec2Isabelle
  imports Main "HOL-Library.Word" "HOL-Library.Sublist"
begin

unbundle bit_operations_syntax

section \<open>Errors, machine integers and strings\<close>

text \<open>
  Every \<^verbatim>\<open>throw\<close> of the sources is a value of \<open>error\<close>.  \<open>terminated\<close> stands for
  \<^verbatim>\<open>REALM_ASSERT\<close> and \<^verbatim>\<open>REALM_UNREACHABLE\<close>, which abort the process and are
  not caught by \<^verbatim>\<open>catch (const std::exception&)\<close>.
\<close>

datatype error =
    runtime_error string
  | logic_error string
  | out_of_range
  | InvalidDatabase
  | terminated string

fun catchable :: "error \<Rightarrow> bool" where
  "catchable (terminated _) = False"
| "catchable _ = True"

type_synonym int64_t = "64 word"
type_synonym int32_t = "32 word"

text \<open>\<^verbatim>\<open>size_t\<close> is 64 bits wide; sizes are naturals and the wrap-around is written out.\<close>

definition npos :: nat where
  "npos = 2 ^ 64 - 1"

definition size_t_add :: "nat \<Rightarrow> nat \<Rightarrow> nat" where
  "size_t_add a b = (a + b) mod 2 ^ 64"

definition size_t_sub :: "nat \<Rightarrow> nat \<Rightarrow> nat" where
  "size_t_sub a b = (a + 2 ^ 64 - b mod 2 ^ 64) mod 2 ^ 64"

text \<open>\<^verbatim>\<open>std::string::find\<close>: the first position of the pattern, or \<^verbatim>\<open>npos\<close>.\<close>

fun find_first :: "string \<Rightarrow> string \<Rightarrow> nat option" where
  "find_first pat [] = (if pat = [] then Some 0 else None)"
| "find_first pat (c # cs) =
     (if prefix pat (c # cs) then Some 0 else map_option Suc (find_first pat cs))"

definition str_find :: "string \<Rightarrow> string \<Rightarrow> nat" where
  "str_find s pat = (case find_first pat s of Some i \<Rightarrow> i | None \<Rightarrow> npos)"

text \<open>\<^verbatim>\<open>std::string::substr(pos, n)\<close> throws \<^verbatim>\<open>std::out_of_range\<close> when \<open>pos\<close> is
  past the end; \<^verbatim>\<open>substr(pos)\<close> is \<open>substr s pos npos\<close>.\<close>

definition substr :: "string \<Rightarrow> nat \<Rightarrow> nat \<Rightarrow> error + string" where
  "substr s pos n = (if length s < pos then Inl out_of_range else Inr (take n (drop pos s)))"

text \<open>\<^verbatim>\<open>s[0]\<close> of a \<^verbatim>\<open>std::string\<close>: the terminating NUL when the string is empty.\<close>

definition char0 :: "string \<Rightarrow> char" where
  "char0 s = (case s of [] \<Rightarrow> CHR 0x00 | c # _ \<Rightarrow> c)"

definition quoted :: "string \<Rightarrow> string" where
  "quoted s = [CHR 0x27] @ s @ [CHR 0x27]"

section \<open>Data types of the storage layer used by the compiler\<close>

text \<open>
  Modelled from the spec: the enumeration \<^verbatim>\<open>DataType\<close> is declared in a header that is
  not among the sources.  Its enumerators are the ones the compiler names, all
  non-negative, and \<open>DataType_minus1\<close> is \<^verbatim>\<open>DataType(-1)\<close>, the unknown type (\<open><0\<close> in
  the spec) that a null value reports.  \<open>DataType_int\<close> gives the integer that the
  comparisons \<^verbatim>\<open>left_type >= 0\<close> read; only its sign is used.
\<close>

datatype DataType =
    type_Int | type_Bool | type_String | type_Binary | type_Mixed | type_Timestamp
  | type_Float | type_Double | type_Decimal | type_Link | type_LinkList | type_ObjectId
  | type_TypedLink | type_UUID | DataType_minus1

fun DataType_int :: "DataType \<Rightarrow> int" where
  "DataType_int type_Int = 0"
| "DataType_int type_Bool = 1"
| "DataType_int type_String = 2"
| "DataType_int type_Binary = 4"
| "DataType_int type_Mixed = 6"
| "DataType_int type_Timestamp = 8"
| "DataType_int type_Float = 9"
| "DataType_int type_Double = 10"
| "DataType_int type_Decimal = 11"
| "DataType_int type_Link = 12"
| "DataType_int type_LinkList = 13"
| "DataType_int type_ObjectId = 15"
| "DataType_int type_TypedLink = 16"
| "DataType_int type_UUID = 17"
| "DataType_int DataType_minus1 = - 1"

datatype ColumnType =
    col_type_Int | col_type_Bool | col_type_String | col_type_Binary | col_type_Mixed
  | col_type_Timestamp | col_type_Float | col_type_Double | col_type_Decimal
  | col_type_Link | col_type_LinkList | col_type_BackLink | col_type_ObjectId
  | col_type_TypedLink | col_type_UUID

text \<open>
  Modelled from the spec: the value classes are declared in headers that are not among
  the sources.  A \<^verbatim>\<open>StringData\<close> or \<^verbatim>\<open>BinaryData\<close> is a possibly null view of bytes:
  \<open>None\<close> is the default-constructed, null one (the sentinel of a \<^verbatim>\<open>NULL\<close> constant).
  Floats and doubles are carried as their bit patterns.  \<^verbatim>\<open>Timestamp\<close>, \<^verbatim>\<open>Decimal128\<close>,
  \<^verbatim>\<open>UUID\<close> and \<^verbatim>\<open>ObjectId\<close> are carried as what their constructors are called with.
  A \<^verbatim>\<open>Mixed\<close> is null or a value of one of the types.
\<close>

type_synonym StringData = "string option"
type_synonym BinaryData = "string option"

datatype Timestamp = Timestamp (get_seconds: int64_t) (get_nanoseconds: int32_t)
datatype Decimal128 = Decimal128 string | Decimal128_nan string
datatype UUID = UUID string
datatype ObjectId = ObjectId string
datatype ObjKey = ObjKey int64_t

datatype Mixed =
    Mixed_null
  | Mixed_Int int64_t
  | Mixed_Bool bool
  | Mixed_String string
  | Mixed_Binary string
  | Mixed_Timestamp Timestamp
  | Mixed_Float "32 word"
  | Mixed_Double "64 word"
  | Mixed_Decimal Decimal128
  | Mixed_ObjectId ObjectId
  | Mixed_UUID UUID
  | Mixed_Link ObjKey

fun is_null :: "Mixed \<Rightarrow> bool" where
  "is_null Mixed_null = True"
| "is_null _ = False"

fun Mixed_get_type :: "Mixed \<Rightarrow> DataType" where
  "Mixed_get_type Mixed_null = DataType_minus1"
| "Mixed_get_type (Mixed_Int _) = type_Int"
| "Mixed_get_type (Mixed_Bool _) = type_Bool"
| "Mixed_get_type (Mixed_String _) = type_String"
| "Mixed_get_type (Mixed_Binary _) = type_Binary"
| "Mixed_get_type (Mixed_Timestamp _) = type_Timestamp"
| "Mixed_get_type (Mixed_Float _) = type_Float"
| "Mixed_get_type (Mixed_Double _) = type_Double"
| "Mixed_get_type (Mixed_Decimal _) = type_Decimal"
| "Mixed_get_type (Mixed_ObjectId _) = type_ObjectId"
| "Mixed_get_type (Mixed_UUID _) = type_UUID"
| "Mixed_get_type (Mixed_Link _) = type_Link"

text \<open>
  Modelled from the spec: \<^verbatim>\<open>ColKey\<close>, \<^verbatim>\<open>Table\<close> and \<^verbatim>\<open>Group\<close> are declared in headers
  that are not among the sources.  A column key gives the column's type and whether it is
  a list.  A table is known to the compiler by its name and by its columns, looked up by
  name; a group by its tables, looked up by name.  A failed lookup gives the null key or
  the null table reference, \<open>None\<close>.
\<close>

datatype ColKey = ColKey (get_col_type: ColumnType) (is_list: bool) (get_index: nat)

record Table =
  get_name :: string
  get_columns :: "(string \<times> ColKey) list"

type_synonym Group = "Table list"

definition get_column_key :: "Table \<Rightarrow> string \<Rightarrow> ColKey option" where
  "get_column_key t col = map_of (get_columns t) col"

definition get_table :: "Group \<Rightarrow> string \<Rightarrow> Table option" where
  "get_table g n = List.find (\<lambda>t. get_name t = n) g"

datatype ExpressionComparisonType = Any | All | None_t

section \<open>Subexpressions and queries\<close>

text \<open>
  Modelled from the spec: the subexpression classes are declared in a header that is not
  among the sources; what the compiler reads of them is \<^verbatim>\<open>get_type()\<close>,
  \<^verbatim>\<open>has_constant_evaluation()\<close>, \<^verbatim>\<open>get_mixed()\<close> and the outcome of its
  \<^verbatim>\<open>dynamic_cast\<close>s.
  One constructor for every class of subexpression the compiler creates: the constants
  (\<^verbatim>\<open>Value<T>\<close>, \<^verbatim>\<open>ConstantStringValue\<close>), the scalar columns \<^verbatim>\<open>Columns<T>\<close>, the
  list columns \<^verbatim>\<open>Columns<Lst<T>>\<close>, the link columns \<^verbatim>\<open>Columns<Link>\<close> (whose key is
  null for a backlink), and the results of \<^verbatim>\<open>count()\<close> and \<^verbatim>\<open>size()\<close>.  A column
  carries the data type of its template parameter \<^verbatim>\<open>T\<close> and what its constructor is
  given: the key, the base table, the link columns traversed and, where passed, the
  comparison type.
\<close>

datatype Subexpr =
    Value_int64_t int64_t
  | Value_Bool bool
  | Value_float "32 word"
  | Value_double "64 word"
  | Value_Decimal128 Decimal128
  | ConstantStringValue StringData
  | Value_BinaryData BinaryData
  | Value_Timestamp Timestamp
  | Value_UUID UUID
  | Value_ObjectId ObjectId
  | Value_null
  | Columns DataType ColKey Table "ColKey list"
  | Columns_Lst DataType ColKey Table "ColKey list" ExpressionComparisonType
  | Columns_Link "ColKey option" Table "ColKey list" "ExpressionComparisonType option"
  | LinkCount Subexpr
  | SizeOperator Subexpr

text \<open>The virtual \<^verbatim>\<open>get_type()\<close>: the type parameter of the class; a count and a size
  are integers.\<close>

fun get_type :: "Subexpr \<Rightarrow> DataType" where
  "get_type (Value_int64_t _) = type_Int"
| "get_type (Value_Bool _) = type_Bool"
| "get_type (Value_float _) = type_Float"
| "get_type (Value_double _) = type_Double"
| "get_type (Value_Decimal128 _) = type_Decimal"
| "get_type (ConstantStringValue _) = type_String"
| "get_type (Value_BinaryData _) = type_Binary"
| "get_type (Value_Timestamp _) = type_Timestamp"
| "get_type (Value_UUID _) = type_UUID"
| "get_type (Value_ObjectId _) = type_ObjectId"
| "get_type Value_null = DataType_minus1"
| "get_type (Columns t _ _ _) = t"
| "get_type (Columns_Lst t _ _ _ _) = t"
| "get_type (Columns_Link _ _ _ _) = type_Link"
| "get_type (LinkCount _) = type_Int"
| "get_type (SizeOperator _) = type_Int"

text \<open>\<^verbatim>\<open>has_constant_evaluation()\<close> holds of the constants, and \<^verbatim>\<open>get_mixed()\<close> reads
  their value; the base class returns a null \<^verbatim>\<open>Mixed\<close>.\<close>

fun has_constant_evaluation :: "Subexpr \<Rightarrow> bool" where
  "has_constant_evaluation (Columns _ _ _ _) = False"
| "has_constant_evaluation (Columns_Lst _ _ _ _ _) = False"
| "has_constant_evaluation (Columns_Link _ _ _ _) = False"
| "has_constant_evaluation (LinkCount _) = False"
| "has_constant_evaluation (SizeOperator _) = False"
| "has_constant_evaluation _ = True"

fun get_mixed :: "Subexpr \<Rightarrow> Mixed" where
  "get_mixed (Value_int64_t v) = Mixed_Int v"
| "get_mixed (Value_Bool v) = Mixed_Bool v"
| "get_mixed (Value_float v) = Mixed_Float v"
| "get_mixed (Value_double v) = Mixed_Double v"
| "get_mixed (Value_Decimal128 v) = Mixed_Decimal v"
| "get_mixed (ConstantStringValue v) = (case v of None \<Rightarrow> Mixed_null | Some s \<Rightarrow> Mixed_String s)"
| "get_mixed (Value_BinaryData v) = (case v of None \<Rightarrow> Mixed_null | Some s \<Rightarrow> Mixed_Binary s)"
| "get_mixed (Value_Timestamp v) = Mixed_Timestamp v"
| "get_mixed (Value_UUID v) = Mixed_UUID v"
| "get_mixed (Value_ObjectId v) = Mixed_ObjectId v"
| "get_mixed _ = Mixed_null"

text \<open>
  \<^verbatim>\<open>dynamic_cast<const ObjPropertyBase*>\<close> succeeds on the scalar columns; the result
  is read through \<^verbatim>\<open>links_exist()\<close> and \<^verbatim>\<open>column_key()\<close>.
  \<^verbatim>\<open>dynamic_cast<ColumnListBase*>\<close> succeeds on the list columns.
\<close>

datatype ObjPropertyBase = ObjPropertyBase (column_key: ColKey) (link_cols: "ColKey list")

fun as_ObjPropertyBase :: "Subexpr \<Rightarrow> ObjPropertyBase option" where
  "as_ObjPropertyBase (Columns _ ck _ links) = Some (ObjPropertyBase ck links)"
| "as_ObjPropertyBase _ = None"

definition links_exist :: "ObjPropertyBase \<Rightarrow> bool" where
  "links_exist p = (link_cols p \<noteq> [])"

fun is_ColumnListBase :: "Subexpr \<Rightarrow> bool" where
  "is_ColumnListBase (Columns_Lst _ _ _ _ _) = True"
| "is_ColumnListBase _ = False"

section \<open>The driver, its arguments and the library functions it calls\<close>

text \<open>
  The \<^verbatim>\<open>Arguments\<close> interface: every accessor may throw.  \<open>buffer_space\<close> is the
  list of buffers that base64 constants are decoded into.
\<close>

record Arguments =
  bool_for_argument :: "nat \<Rightarrow> error + bool"
  long_for_argument :: "nat \<Rightarrow> error + int64_t"
  float_for_argument :: "nat \<Rightarrow> error + 32 word"
  double_for_argument :: "nat \<Rightarrow> error + 64 word"
  string_for_argument :: "nat \<Rightarrow> error + StringData"
  binary_for_argument :: "nat \<Rightarrow> error + BinaryData"
  timestamp_for_argument :: "nat \<Rightarrow> error + Timestamp"
  objectid_for_argument :: "nat \<Rightarrow> error + ObjectId"
  uuid_for_argument :: "nat \<Rightarrow> error + UUID"
  decimal128_for_argument :: "nat \<Rightarrow> error + Decimal128"
  object_index_for_argument :: "nat \<Rightarrow> error + ObjKey"
  is_argument_null :: "nat \<Rightarrow> error + bool"
  type_for_argument :: "nat \<Rightarrow> error + DataType"
  buffer_space :: "string list"

record ParserDriver =
  m_base_table :: Table
  m_args :: Arguments

text \<open>\<^verbatim>\<open>struct tm\<close>, the fields the compiler writes.\<close>

record tm =
  tm_year :: int32_t
  tm_mon :: int32_t
  tm_mday :: int32_t
  tm_hour :: int32_t
  tm_min :: int32_t
  tm_sec :: int32_t

text \<open>
  Functions of the C library and of other parts of the engine, taken as parameters.
  \<open>strtol s base\<close> is \<^verbatim>\<open>strtol(s, nullptr, base)\<close>; \<open>sscanf s fmt\<close> gives the
  values of the conversions that succeeded, in order, so that the count \<^verbatim>\<open>sscanf\<close>
  returns is their number; \<open>base64_decode window buffer_size\<close> gives the decoded bytes,
  or \<open>None\<close> when decoding fails.
\<close>

record externals =
  strtol :: "string \<Rightarrow> nat \<Rightarrow> int64_t"
  strtof :: "string \<Rightarrow> 32 word"
  strtod :: "string \<Rightarrow> 64 word"
  sscanf :: "string \<Rightarrow> string \<Rightarrow> int32_t list"
  platform_timegm :: "tm \<Rightarrow> int64_t"
  base64_decoded_size :: "nat \<Rightarrow> nat"
  base64_decode :: "string \<Rightarrow> nat \<Rightarrow> string option"
  get_data_type_name :: "DataType \<Rightarrow> string"
  data_types_are_comparable :: "DataType \<Rightarrow> DataType \<Rightarrow> bool"
  description :: "Subexpr \<Rightarrow> string"

section \<open>Names\<close>

text \<open>\<^verbatim>\<open>get_printable_table_name\<close>: the prefix is dropped only from a longer name.\<close>

definition get_printable_table_name :: "string \<Rightarrow> string" where
  "get_printable_table_name name =
     (let prefix_str = ''class_'' in
      if length name > length prefix_str \<and> take (length prefix_str) name = prefix_str
      then drop (length prefix_str) name
      else name)"

datatype PostOpNode_Type = COUNT | SIZE

fun post_op_type_to_str :: "PostOpNode_Type \<Rightarrow> string" where
  "post_op_type_to_str COUNT = ''.@count''"
| "post_op_type_to_str SIZE = ''.@size''"

section \<open>Constants\<close>

definition get_timestamp_if_valid :: "int64_t \<Rightarrow> int32_t \<Rightarrow> error + Timestamp" where
  "get_timestamp_if_valid seconds nanoseconds =
     (let both_non_negative = (0 \<le>s seconds \<and> 0 \<le>s nanoseconds);
          both_non_positive = (seconds \<le>s 0 \<and> nanoseconds \<le>s 0)
      in if both_non_negative \<or> both_non_positive
         then Inr (Timestamp seconds nanoseconds)
         else Inl (runtime_error ''Invalid timestamp format''))"

datatype ConstantNode_Type =
    NUMBER | INFINITY_VAL | NAN_VAL | FLOAT | STRING | BASE64 | TIMESTAMP | UUID_T | OID
  | NULL_VAL | TRUE | FALSE | ARG

record ConstantNode =
  c_type :: ConstantNode_Type
  c_text :: string

text \<open>
  The \<^verbatim>\<open>TIMESTAMP\<close> case.  In the form \<^verbatim>\<open>T<seconds>:<nanoseconds>\<close> the two numbers
  are read by \<^verbatim>\<open>strtol\<close> and the second is narrowed to 32 bits.  In the readable form
  \<^verbatim>\<open>sscanf\<close> must convert six fields at least (an assertion); with exactly six the
  nanoseconds are 0.
\<close>

definition readable_format :: "string \<Rightarrow> string" where
  "readable_format s =
     (let sep = (if str_find s ''@'' < length s then CHR ''@'' else CHR ''T'')
      in ''%d-%d-%d'' @ [sep] @ ''%d:%d:%d:%d'')"

definition broken_down_time :: "int32_t list \<Rightarrow> tm" where
  "broken_down_time vs =
     \<lparr> tm_year = vs ! 0 - 1900, tm_mon = vs ! 1 - 1, tm_mday = vs ! 2,
       tm_hour = vs ! 3, tm_min = vs ! 4, tm_sec = vs ! 5 \<rparr>"

definition timestamp_seconds_nanoseconds ::
  "externals \<Rightarrow> string \<Rightarrow> error + (int64_t \<times> int32_t)" where
  "timestamp_seconds_nanoseconds ext s =
     (if char0 s = CHR ''T'' then
        (let colon_pos = str_find s '':'' in
         case substr s 1 (size_t_sub colon_pos 1) of
           Inl e \<Rightarrow> Inl e
         | Inr s1 \<Rightarrow>
             (case substr s (size_t_add colon_pos 1) npos of
                Inl e \<Rightarrow> Inl e
              | Inr s2 \<Rightarrow> Inr (strtol ext s1 0, ucast (strtol ext s2 0))))
      else
        (let vs = sscanf ext s (readable_format s);
             cnt = length vs
         in if cnt < 6 then Inl (terminated ''REALM_ASSERT(cnt >= 6)'')
            else
              (let tmp = broken_down_time vs
               in if tm_year tmp <s 0
                  then Inl (logic_error ''Conversion of dates before 1900 is not supported.'')
                  else
                    (let seconds = platform_timegm ext tmp;
                         nanoseconds = (if cnt = 6 then 0 else vs ! 6)
                     in if nanoseconds <s 0
                        then Inl (logic_error ''The nanoseconds of a Timestamp cannot be negative.'')
                        else Inr (seconds,
                                  if seconds <s 0 then nanoseconds * (- 1) else nanoseconds)))))"

text \<open>
  The \<^verbatim>\<open>switch\<close> of \<^verbatim>\<open>ConstantNode::visit\<close>: the pointer \<^verbatim>\<open>ret\<close> it leaves (\<open>None\<close>
  when no case assigned it), or the exception thrown, and the driver afterwards.
\<close>

definition arg_value :: "Arguments \<Rightarrow> nat \<Rightarrow> error + Subexpr option" where
  "arg_value args arg_no =
     (case is_argument_null args arg_no of
        Inl e \<Rightarrow> Inl e
      | Inr True \<Rightarrow> Inr (Some Value_null)
      | Inr False \<Rightarrow>
          (case type_for_argument args arg_no of
             Inl e \<Rightarrow> Inl e
           | Inr type_Int \<Rightarrow> map_sum id (\<lambda>v. Some (Value_int64_t v)) (long_for_argument args arg_no)
           | Inr type_String \<Rightarrow> map_sum id (\<lambda>v. Some (ConstantStringValue v)) (string_for_argument args arg_no)
           | Inr type_Binary \<Rightarrow> map_sum id (\<lambda>v. Some (Value_BinaryData v)) (binary_for_argument args arg_no)
           | Inr type_Bool \<Rightarrow> map_sum id (\<lambda>v. Some (Value_Bool v)) (bool_for_argument args arg_no)
           | Inr type_Float \<Rightarrow> map_sum id (\<lambda>v. Some (Value_float v)) (float_for_argument args arg_no)
           | Inr type_Double \<Rightarrow> map_sum id (\<lambda>v. Some (Value_double v)) (double_for_argument args arg_no)
           | Inr type_Timestamp \<Rightarrow>
               (case timestamp_for_argument args arg_no of
                  Inr v \<Rightarrow> Inr (Some (Value_Timestamp v))
                | Inl e \<Rightarrow>
                    if catchable e
                    then map_sum id (\<lambda>v. Some (Value_ObjectId v)) (objectid_for_argument args arg_no)
                    else Inl e)
           | Inr type_ObjectId \<Rightarrow>
               (case objectid_for_argument args arg_no of
                  Inr v \<Rightarrow> Inr (Some (Value_ObjectId v))
                | Inl e \<Rightarrow>
                    if catchable e
                    then map_sum id (\<lambda>v. Some (Value_Timestamp v)) (timestamp_for_argument args arg_no)
                    else Inl e)
           | Inr type_Decimal \<Rightarrow> map_sum id (\<lambda>v. Some (Value_Decimal128 v)) (decimal128_for_argument args arg_no)
           | Inr type_UUID \<Rightarrow> map_sum id (\<lambda>v. Some (Value_UUID v)) (uuid_for_argument args arg_no)
           | Inr _ \<Rightarrow> Inr None))"

definition ConstantNode_switch ::
  "externals \<Rightarrow> ConstantNode \<Rightarrow> ParserDriver \<Rightarrow> DataType \<Rightarrow> (error + Subexpr option) \<times> ParserDriver" where
  "ConstantNode_switch ext node drv hint =
     (let text = c_text node in
      case c_type node of
        NUMBER \<Rightarrow>
          (if hint = type_Decimal then (Inr (Some (Value_Decimal128 (Decimal128 text))), drv)
           else (Inr (Some (Value_int64_t (strtol ext text 0))), drv))
      | FLOAT \<Rightarrow>
          (case hint of
             type_Float \<Rightarrow> (Inr (Some (Value_float (strtof ext text))), drv)
           | type_Decimal \<Rightarrow> (Inr (Some (Value_Decimal128 (Decimal128 text))), drv)
           | _ \<Rightarrow> (Inr (Some (Value_double (strtod ext text))), drv))
      | INFINITY_VAL \<Rightarrow>
          (let negative = (char0 text = CHR ''-'') in
           case hint of
             type_Float \<Rightarrow>
               (Inr (Some (Value_float (if negative then 0xFF800000 else 0x7F800000))), drv)
           | type_Double \<Rightarrow>
               (Inr (Some (Value_double (if negative then 0xFFF0000000000000 else 0x7FF0000000000000))), drv)
           | type_Decimal \<Rightarrow> (Inr (Some (Value_Decimal128 (Decimal128 text))), drv)
           | _ \<Rightarrow> (Inl (runtime_error (''Infinity not supported for '' @ get_data_type_name ext hint)), drv))
      | NAN_VAL \<Rightarrow>
          (case hint of
             type_Float \<Rightarrow> (Inr (Some (Value_float 0x7fc00000)), drv)
           | type_Double \<Rightarrow> (Inr (Some (Value_double 0x7ff8000000000000)), drv)
           | type_Decimal \<Rightarrow> (Inr (Some (Value_Decimal128 (Decimal128_nan ''0''))), drv)
           | _ \<Rightarrow> (Inl (terminated ''REALM_UNREACHABLE''), drv))
      | STRING \<Rightarrow>
          (case substr text 1 (size_t_sub (length text) 2) of
             Inl e \<Rightarrow> (Inl e, drv)
           | Inr str \<Rightarrow> (Inr (Some (ConstantStringValue (Some str))), drv))
      | BASE64 \<Rightarrow>
          (let encoded_size = size_t_sub (length text) 5;
               buffer_size = base64_decoded_size ext encoded_size;
               window = take encoded_size (drop 4 text);
               push = (\<lambda>buf. drv\<lparr>m_args := (m_args drv)\<lparr>buffer_space := buffer_space (m_args drv) @ [buf]\<rparr>\<rparr>)
           in case base64_decode ext window buffer_size of
                None \<Rightarrow> (Inl (runtime_error ''Invalid base64 value''),
                          push (replicate buffer_size (CHR 0x00)))
              | Some decode_buffer \<Rightarrow>
                  (Inr (let ret = (if hint = type_String
                                   then Some (ConstantStringValue (Some decode_buffer)) else None)
                        in if hint = type_Binary
                           then Some (Value_BinaryData (Some decode_buffer)) else ret),
                   push decode_buffer))
      | TIMESTAMP \<Rightarrow>
          (case timestamp_seconds_nanoseconds ext text of
             Inl e \<Rightarrow> (Inl e, drv)
           | Inr (seconds, nanoseconds) \<Rightarrow>
               (map_sum id (\<lambda>t. Some (Value_Timestamp t)) (get_timestamp_if_valid seconds nanoseconds), drv))
      | UUID_T \<Rightarrow>
          (case substr text 5 (size_t_sub (length text) 6) of
             Inl e \<Rightarrow> (Inl e, drv)
           | Inr str \<Rightarrow> (Inr (Some (Value_UUID (UUID str))), drv))
      | OID \<Rightarrow>
          (case substr text 4 (size_t_sub (length text) 5) of
             Inl e \<Rightarrow> (Inl e, drv)
           | Inr str \<Rightarrow> (Inr (Some (Value_ObjectId (ObjectId str))), drv))
      | NULL_VAL \<Rightarrow>
          (if hint = type_String then (Inr (Some (ConstantStringValue None)), drv)
           else if hint = type_Binary then (Inr (Some (Value_BinaryData None)), drv)
           else if hint = type_LinkList then (Inl (runtime_error ''Cannot compare linklist with NULL''), drv)
           else (Inr (Some Value_null), drv))
      | TRUE \<Rightarrow> (Inr (Some (Value_Bool True)), drv)
      | FALSE \<Rightarrow> (Inr (Some (Value_Bool False)), drv)
      | ARG \<Rightarrow>
          (case substr text 1 npos of
             Inl e \<Rightarrow> (Inl e, drv)
           | Inr digits \<Rightarrow> (arg_value (m_args drv) (unat (strtol ext digits 10)), drv)))"

definition ConstantNode_visit ::
  "externals \<Rightarrow> ConstantNode \<Rightarrow> ParserDriver \<Rightarrow> DataType \<Rightarrow> (error + Subexpr) \<times> ParserDriver" where
  "ConstantNode_visit ext node drv hint =
     (case ConstantNode_switch ext node drv hint of
        (Inl e, drv') \<Rightarrow> (Inl e, drv')
      | (Inr None, drv') \<Rightarrow>
          (Inl (runtime_error (''Unsupported comparison between property of type ''
                 @ quoted (get_data_type_name ext hint) @ '' and constant value ''
                 @ quoted (c_text node))), drv')
      | (Inr (Some ret), drv') \<Rightarrow> (Inr ret, drv'))"

text \<open>
  \<^verbatim>\<open>MixedArguments\<close>: the arguments are a vector of \<^verbatim>\<open>Mixed\<close>; \<^verbatim>\<open>at(n)\<close> throws
  \<^verbatim>\<open>std::out_of_range\<close>, and the accessors \<^verbatim>\<open>get<T>()\<close> of \<^verbatim>\<open>Mixed\<close>, which are not
  among the sources, are taken to assert that the value has type \<^verbatim>\<open>T\<close>.
\<close>

definition Mixed_at :: "Mixed list \<Rightarrow> nat \<Rightarrow> error + Mixed" where
  "Mixed_at args n = (if n < length args then Inr (args ! n) else Inl out_of_range)"

definition Mixed_get :: "DataType \<Rightarrow> Mixed \<Rightarrow> error + Mixed" where
  "Mixed_get t m =
     (if Mixed_get_type m = t then Inr m else Inl (terminated ''REALM_ASSERT(get_type() == type)''))"

definition at_get :: "Mixed list \<Rightarrow> nat \<Rightarrow> (Mixed \<Rightarrow> 'a option) \<Rightarrow> error + 'a" where
  "at_get args n sel =
     (case Mixed_at args n of
        Inl e \<Rightarrow> Inl e
      | Inr m \<Rightarrow> (case sel m of Some v \<Rightarrow> Inr v
                   | None \<Rightarrow> Inl (terminated ''REALM_ASSERT(get_type() == type)'')))"

definition MixedArguments :: "Mixed list \<Rightarrow> Arguments" where
  "MixedArguments args =
     \<lparr> bool_for_argument = (\<lambda>n. at_get args n (\<lambda>m. case m of Mixed_Bool v \<Rightarrow> Some v | _ \<Rightarrow> None)),
       long_for_argument = (\<lambda>n. at_get args n (\<lambda>m. case m of Mixed_Int v \<Rightarrow> Some v | _ \<Rightarrow> None)),
       float_for_argument = (\<lambda>n. at_get args n (\<lambda>m. case m of Mixed_Float v \<Rightarrow> Some v | _ \<Rightarrow> None)),
       double_for_argument = (\<lambda>n. at_get args n (\<lambda>m. case m of Mixed_Double v \<Rightarrow> Some v | _ \<Rightarrow> None)),
       string_for_argument = (\<lambda>n. at_get args n (\<lambda>m. case m of Mixed_String v \<Rightarrow> Some (Some v) | _ \<Rightarrow> None)),
       binary_for_argument = (\<lambda>n. at_get args n (\<lambda>m. case m of Mixed_Binary v \<Rightarrow> Some (Some v) | _ \<Rightarrow> None)),
       timestamp_for_argument = (\<lambda>n. at_get args n (\<lambda>m. case m of Mixed_Timestamp v \<Rightarrow> Some v | _ \<Rightarrow> None)),
       objectid_for_argument = (\<lambda>n. at_get args n (\<lambda>m. case m of Mixed_ObjectId v \<Rightarrow> Some v | _ \<Rightarrow> None)),
       uuid_for_argument = (\<lambda>n. at_get args n (\<lambda>m. case m of Mixed_UUID v \<Rightarrow> Some v | _ \<Rightarrow> None)),
       decimal128_for_argument = (\<lambda>n. at_get args n (\<lambda>m. case m of Mixed_Decimal v \<Rightarrow> Some v | _ \<Rightarrow> None)),
       object_index_for_argument = (\<lambda>n. at_get args n (\<lambda>m. case m of Mixed_Link v \<Rightarrow> Some v | _ \<Rightarrow> None)),
       is_argument_null = (\<lambda>n. map_sum id is_null (Mixed_at args n)),
       type_for_argument = (\<lambda>n. map_sum id Mixed_get_type (Mixed_at args n)),
       buffer_space = [] \<rparr>"

section \<open>Two-operand coercion\<close>

text \<open>
  A value node holds a constant or a property node (the fields \<^verbatim>\<open>constant\<close> and
  \<^verbatim>\<open>prop\<close>), the other pointer being null.  A property node is used through its
  virtual \<^verbatim>\<open>visit\<close> only, and is represented by it.
\<close>

type_synonym PropertyNode = "ParserDriver \<Rightarrow> (error + Subexpr) \<times> ParserDriver"

record ValueNode =
  v_constant :: "ConstantNode option"
  v_prop :: "PropertyNode option"

definition visit_prop :: "PropertyNode option \<Rightarrow> ParserDriver \<Rightarrow> (error + Subexpr) \<times> ParserDriver" where
  "visit_prop p drv =
     (case p of None \<Rightarrow> (Inl (terminated ''null pointer''), drv) | Some node \<Rightarrow> node drv)"

definition cmp ::
  "externals \<Rightarrow> ParserDriver \<Rightarrow> ValueNode list \<Rightarrow> (error + Subexpr \<times> Subexpr) \<times> ParserDriver" where
  "cmp ext drv values =
     (if length values < 2 then (Inl (terminated ''values[1] out of range''), drv)
      else
        (let left_constant = v_constant (values ! 0);
             right_constant = v_constant (values ! 1);
             left_prop = v_prop (values ! 0);
             right_prop = v_prop (values ! 1)
         in if left_constant \<noteq> None \<and> right_constant \<noteq> None
            then (Inl (runtime_error ''Cannot compare two constants''), drv)
            else
              (case (case right_constant of
                       Some rc \<Rightarrow>
                         (case visit_prop left_prop drv of
                            (Inl e, d1) \<Rightarrow> (Inl e, d1)
                          | (Inr left, d1) \<Rightarrow>
                              (case ConstantNode_visit ext rc d1 (get_type left) of
                                 (Inl e, d2) \<Rightarrow> (Inl e, d2)
                               | (Inr right, d2) \<Rightarrow> (Inr (left, right), d2)))
                     | None \<Rightarrow>
                         (case visit_prop right_prop drv of
                            (Inl e, d1) \<Rightarrow> (Inl e, d1)
                          | (Inr right, d1) \<Rightarrow>
                              (case (case left_constant of
                                       Some lc \<Rightarrow> ConstantNode_visit ext lc d1 (get_type right)
                                     | None \<Rightarrow> visit_prop left_prop d1) of
                                 (Inl e, d2) \<Rightarrow> (Inl e, d2)
                               | (Inr left, d2) \<Rightarrow> (Inr (left, right), d2)))) of
                 (Inl e, d) \<Rightarrow> (Inl e, d)
               | (Inr (left, right), d) \<Rightarrow>
                   if is_ColumnListBase left \<and> is_ColumnListBase right
                   then (Inl (runtime_error
                           (''Ordered comparison between two primitive lists is not implemented yet (''
                            @ quoted (description ext left) @ '' and ''
                            @ quoted (description ext right) @ '')'')), d)
                   else (Inr (left, right), d))))"

section \<open>Comparison nodes\<close>

datatype CompareNode_op =
    EQUAL | NOT_EQUAL | GREATER | LESS | GREATER_EQUAL | LESS_EQUAL
  | BEGINSWITH | ENDSWITH | CONTAINS | LIKE

datatype Compare_cond =
    Equal | NotEqual | EqualIns | NotEqualIns | Less | Greater | LessEqual | GreaterEqual

text \<open>
  The queries the comparison nodes return: the empty \<^verbatim>\<open>Query\<close> of \<^verbatim>\<open>return {}\<close>; the
  column against null, \<^verbatim>\<open>m_base_table->where().equal(col_key, realm::null())\<close> and
  \<^verbatim>\<open>not_equal\<close>; the column-specialized \<^verbatim>\<open>simple_query(op, col_key, val)\<close>, with the
  case-sensitivity flag where it is passed; and the expression \<^verbatim>\<open>Compare<Cond>(a, b)\<close>.
\<close>

datatype Query =
    Query_empty
  | where_equal_null Table ColKey
  | where_not_equal_null Table ColKey
  | simple_query CompareNode_op ColKey Mixed "bool option"
  | Compare Compare_cond Subexpr Subexpr

definition unsupported_comparison :: "externals \<Rightarrow> DataType \<Rightarrow> DataType \<Rightarrow> error" where
  "unsupported_comparison ext left_type right_type =
     runtime_error (''Unsupported comparison between type '' @ quoted (get_data_type_name ext left_type)
                    @ '' and type '' @ quoted (get_data_type_name ext right_type))"

text \<open>\<^verbatim>\<open>simple_query(op, col_key, val.get<T>())\<close>, the accessor asserting the type.\<close>

definition simple ::
  "CompareNode_op \<Rightarrow> ColKey \<Rightarrow> DataType \<Rightarrow> Mixed \<Rightarrow> bool option \<Rightarrow> error + Query" where
  "simple op col_key t val cs =
     (case Mixed_get t val of Inl e \<Rightarrow> Inl e | Inr v \<Rightarrow> Inr (simple_query op col_key v cs))"

text \<open>
  The column-specialized part of \<^verbatim>\<open>EqualitylNode::visit\<close>: \<open>Some\<close> what it returns, or
  \<open>None\<close> when control reaches the generic part below it.
\<close>

definition Equality_specialized ::
  "ParserDriver \<Rightarrow> CompareNode_op \<Rightarrow> bool \<Rightarrow> Subexpr \<Rightarrow> Subexpr \<Rightarrow> (error + Query) option" where
  "Equality_specialized drv op case_sensitive left right =
     (case as_ObjPropertyBase left of
        None \<Rightarrow> None
      | Some p \<Rightarrow>
          if \<not> links_exist p \<and> has_constant_evaluation right \<and> get_type left = get_type right
          then
            (let col_key = column_key p; val = get_mixed right in
             if is_null val \<and> op = EQUAL
               then Some (Inr (where_equal_null (m_base_table drv) col_key))
             else if is_null val \<and> op = NOT_EQUAL
               then Some (Inr (where_not_equal_null (m_base_table drv) col_key))
             else
               (case get_type left of
                  type_Int \<Rightarrow> Some (simple op col_key type_Int val None)
                | type_Bool \<Rightarrow> Some (simple op col_key type_Bool val None)
                | type_String \<Rightarrow> Some (simple op col_key type_String val (Some case_sensitive))
                | type_Binary \<Rightarrow> Some (simple op col_key type_Binary val (Some case_sensitive))
                | type_Timestamp \<Rightarrow> Some (simple op col_key type_Timestamp val None)
                | type_Float \<Rightarrow> Some (simple op col_key type_Float val None)
                | type_Double \<Rightarrow> Some (simple op col_key type_Double val None)
                | type_Decimal \<Rightarrow> Some (simple op col_key type_Decimal val None)
                | type_ObjectId \<Rightarrow> None
                | type_UUID \<Rightarrow> Some (simple op col_key type_UUID val None)
                | _ \<Rightarrow> None))
          else None)"

definition Equality_generic :: "CompareNode_op \<Rightarrow> bool \<Rightarrow> Subexpr \<Rightarrow> Subexpr \<Rightarrow> Query" where
  "Equality_generic op case_sensitive left right =
     (if case_sensitive then
        (case op of
           EQUAL \<Rightarrow> Compare Equal right left
         | NOT_EQUAL \<Rightarrow> Compare NotEqual right left
         | _ \<Rightarrow> Query_empty)
      else
        (case op of
           EQUAL \<Rightarrow> Compare EqualIns right left
         | NOT_EQUAL \<Rightarrow> Compare NotEqualIns right left
         | _ \<Rightarrow> Query_empty))"

text \<open>\<^verbatim>\<open>EqualitylNode::visit\<close> from the operands \<^verbatim>\<open>cmp\<close> returned, and as a whole.\<close>

definition EqualitylNode_operands ::
  "externals \<Rightarrow> ParserDriver \<Rightarrow> CompareNode_op \<Rightarrow> bool \<Rightarrow> Subexpr \<Rightarrow> Subexpr \<Rightarrow> error + Query" where
  "EqualitylNode_operands ext drv op case_sensitive left right =
     (let left_type = get_type left; right_type = get_type right in
      if 0 \<le> DataType_int left_type \<and> 0 \<le> DataType_int right_type
         \<and> \<not> data_types_are_comparable ext left_type right_type
      then Inl (unsupported_comparison ext left_type right_type)
      else
        (case Equality_specialized drv op case_sensitive left right of
           Some r \<Rightarrow> r
         | None \<Rightarrow> Inr (Equality_generic op case_sensitive left right)))"

definition EqualitylNode_visit ::
  "externals \<Rightarrow> ValueNode list \<Rightarrow> CompareNode_op \<Rightarrow> bool \<Rightarrow> ParserDriver
     \<Rightarrow> (error + Query) \<times> ParserDriver" where
  "EqualitylNode_visit ext values op case_sensitive drv =
     (case cmp ext drv values of
        (Inl e, d) \<Rightarrow> (Inl e, d)
      | (Inr (left, right), d) \<Rightarrow> (EqualitylNode_operands ext d op case_sensitive left right, d))"

text \<open>\<^verbatim>\<open>opstr[op]\<close>: a key the map lacks reads as the empty string.\<close>

fun opstr :: "CompareNode_op \<Rightarrow> string" where
  "opstr GREATER = ''>''"
| "opstr LESS = ''<''"
| "opstr GREATER_EQUAL = ''>=''"
| "opstr LESS_EQUAL = ''<=''"
| "opstr BEGINSWITH = ''beginswith''"
| "opstr ENDSWITH = ''endswith''"
| "opstr CONTAINS = ''contains''"
| "opstr LIKE = ''like''"
| "opstr _ = []"

definition unsupported_operator :: "CompareNode_op \<Rightarrow> error" where
  "unsupported_operator op =
     logic_error (''Unsupported operator '' @ opstr op
       @ '' in query. Only equal (==) and not equal (!=) are supported for this type.'')"

definition Relational_specialized ::
  "CompareNode_op \<Rightarrow> Subexpr \<Rightarrow> Subexpr \<Rightarrow> (error + Query) option" where
  "Relational_specialized op left right =
     (case as_ObjPropertyBase left of
        None \<Rightarrow> None
      | Some p \<Rightarrow>
          if \<not> links_exist p \<and> has_constant_evaluation right \<and> get_type left = get_type right
          then
            (let col_key = column_key p in
             case get_type left of
               type_Int \<Rightarrow> Some (simple op col_key type_Int (get_mixed right) None)
             | type_Bool \<Rightarrow> None
             | type_String \<Rightarrow> None
             | type_Binary \<Rightarrow> None
             | type_Timestamp \<Rightarrow> Some (simple op col_key type_Timestamp (get_mixed right) None)
             | type_Float \<Rightarrow> Some (simple op col_key type_Float (get_mixed right) None)
             | type_Double \<Rightarrow> Some (simple op col_key type_Double (get_mixed right) None)
             | type_Decimal \<Rightarrow> Some (simple op col_key type_Decimal (get_mixed right) None)
             | type_ObjectId \<Rightarrow> None
             | type_UUID \<Rightarrow> None
             | _ \<Rightarrow> None)
          else None)"

definition Relational_generic :: "CompareNode_op \<Rightarrow> Subexpr \<Rightarrow> Subexpr \<Rightarrow> Query" where
  "Relational_generic op left right =
     (case op of
        GREATER \<Rightarrow> Compare Less right left
      | LESS \<Rightarrow> Compare Greater right left
      | GREATER_EQUAL \<Rightarrow> Compare LessEqual right left
      | LESS_EQUAL \<Rightarrow> Compare GreaterEqual right left
      | _ \<Rightarrow> Query_empty)"

text \<open>\<^verbatim>\<open>RelationalNode::visit\<close> from the operands \<^verbatim>\<open>cmp\<close> returned, and as a whole.\<close>

definition RelationalNode_operands ::
  "externals \<Rightarrow> CompareNode_op \<Rightarrow> Subexpr \<Rightarrow> Subexpr \<Rightarrow> error + Query" where
  "RelationalNode_operands ext op left right =
     (let left_type = get_type left; right_type = get_type right in
      if left_type = type_UUID then Inl (unsupported_operator op)
      else if DataType_int left_type < 0 \<or> DataType_int right_type < 0
              \<or> \<not> data_types_are_comparable ext left_type right_type
      then Inl (unsupported_comparison ext left_type right_type)
      else
        (case Relational_specialized op left right of
           Some r \<Rightarrow> r
         | None \<Rightarrow> Inr (Relational_generic op left right)))"

definition RelationalNode_visit ::
  "externals \<Rightarrow> ValueNode list \<Rightarrow> CompareNode_op \<Rightarrow> ParserDriver
     \<Rightarrow> (error + Query) \<times> ParserDriver" where
  "RelationalNode_visit ext values op drv =
     (case cmp ext drv values of
        (Inl e, d) \<Rightarrow> (Inl e, d)
      | (Inr (left, right), d) \<Rightarrow> (RelationalNode_operands ext op left right, d))"

section \<open>Post-operators\<close>

fun is_Columns_Link :: "Subexpr \<Rightarrow> bool" where
  "is_Columns_Link (Columns_Link _ _ _ _) = True"
| "is_Columns_Link _ = False"

fun is_Columns_StringData :: "Subexpr \<Rightarrow> bool" where
  "is_Columns_StringData (Columns t _ _ _) = (t = type_String)"
| "is_Columns_StringData _ = False"

fun is_Columns_BinaryData :: "Subexpr \<Rightarrow> bool" where
  "is_Columns_BinaryData (Columns t _ _ _) = (t = type_Binary)"
| "is_Columns_BinaryData _ = False"

text \<open>
  \<^verbatim>\<open>PostOpNode::visit\<close>: the chain of \<^verbatim>\<open>dynamic_cast\<close>s in the order of the source; a
  null pointer reaches \<^verbatim>\<open>REALM_UNREACHABLE\<close>.
\<close>

definition PostOpNode_visit :: "externals \<Rightarrow> PostOpNode_Type \<Rightarrow> Subexpr option \<Rightarrow> error + Subexpr" where
  "PostOpNode_visit ext type subexpr =
     (case subexpr of
        None \<Rightarrow> Inl (terminated ''REALM_UNREACHABLE'')
      | Some s \<Rightarrow>
          if is_Columns_Link s then Inr (LinkCount s)
          else if is_ColumnListBase s then Inr (SizeOperator s)
          else if is_Columns_StringData s then Inr (SizeOperator s)
          else if is_Columns_BinaryData s then Inr (SizeOperator s)
          else Inl (runtime_error (''Operation '' @ quoted (post_op_type_to_str type)
                      @ '' is not supported on property of type ''
                      @ quoted (get_data_type_name ext (get_type s)))))"

section \<open>Link chains and properties\<close>

record LinkChain =
  chain_base_table :: Table
  m_current_table :: Table
  m_link_cols :: "ColKey list"
  m_comparison_type :: ExpressionComparisonType

text \<open>
  The operations of \<^verbatim>\<open>LinkChain\<close> that are defined outside the compiler, taken as
  parameters: \<^verbatim>\<open>link(name)\<close>, \<^verbatim>\<open>backlink(origin_table, origin_column)\<close> and
  \<^verbatim>\<open>add(col_key)\<close>.
\<close>

record chain_ops =
  LinkChain_link :: "LinkChain \<Rightarrow> string \<Rightarrow> error + LinkChain"
  LinkChain_backlink_from :: "LinkChain \<Rightarrow> Table \<Rightarrow> ColKey \<Rightarrow> error + LinkChain"
  LinkChain_add :: "LinkChain \<Rightarrow> ColKey \<Rightarrow> error + LinkChain"

definition no_property :: "string \<Rightarrow> string \<Rightarrow> string \<Rightarrow> error" where
  "no_property column_name table_name current_name =
     runtime_error (''No property '' @ quoted column_name @ '' found in type ''
       @ quoted (get_printable_table_name table_name) @ '' which links to type ''
       @ quoted (get_printable_table_name current_name))"

text \<open>
  \<^verbatim>\<open>LinkChain::backlink(path_elem)\<close>; \<open>g\<close> is the parent group of the base table.  When
  the text has no dot, \<^verbatim>\<open>find\<close> gives \<^verbatim>\<open>npos\<close>, and \<^verbatim>\<open>dot_pos + 1\<close> wraps to 0.
\<close>

definition LinkChain_backlink ::
  "chain_ops \<Rightarrow> Group \<Rightarrow> LinkChain \<Rightarrow> string \<Rightarrow> error + LinkChain" where
  "LinkChain_backlink ops g chain path_elem =
     (case substr path_elem 7 npos of
        Inl e \<Rightarrow> Inl e
      | Inr table_column_pair \<Rightarrow>
          (let dot_pos = str_find table_column_pair ''.'' in
           case substr table_column_pair 0 dot_pos of
             Inl e \<Rightarrow> Inl e
           | Inr table_name \<Rightarrow>
               (case substr table_column_pair (size_t_add dot_pos 1) npos of
                  Inl e \<Rightarrow> Inl e
                | Inr column_name \<Rightarrow>
                    (let origin_table = get_table g table_name;
                         origin_column =
                           (case origin_table of
                              Some t \<Rightarrow> get_column_key t column_name
                            | None \<Rightarrow> None)
                     in case (origin_table, origin_column) of
                          (Some t, Some ck) \<Rightarrow> LinkChain_backlink_from ops chain t ck
                        | _ \<Rightarrow> Inl (no_property column_name table_name
                                      (get_name (m_current_table chain)))))))"

text \<open>
  \<^verbatim>\<open>LinkChain::column(col)\<close>: the subexpression, and the chain as the call leaves it.  The
  cases of each \<^verbatim>\<open>switch\<close> that differ in the template argument only are read from
  \<open>primitive_type\<close>.
\<close>

fun primitive_type :: "ColumnType \<Rightarrow> DataType option" where
  "primitive_type col_type_Int = Some type_Int"
| "primitive_type col_type_Bool = Some type_Bool"
| "primitive_type col_type_String = Some type_String"
| "primitive_type col_type_Binary = Some type_Binary"
| "primitive_type col_type_Float = Some type_Float"
| "primitive_type col_type_Double = Some type_Double"
| "primitive_type col_type_Timestamp = Some type_Timestamp"
| "primitive_type col_type_Decimal = Some type_Decimal"
| "primitive_type col_type_UUID = Some type_UUID"
| "primitive_type col_type_ObjectId = Some type_ObjectId"
| "primitive_type col_type_Mixed = Some type_Mixed"
| "primitive_type _ = None"

definition LinkChain_column ::
  "chain_ops \<Rightarrow> Group \<Rightarrow> LinkChain \<Rightarrow> string \<Rightarrow> error + Subexpr \<times> LinkChain" where
  "LinkChain_column ops g chain col =
     (if str_find col ''@links.'' = 0 then
        (case LinkChain_backlink ops g chain col of
           Inl e \<Rightarrow> Inl e
         | Inr c \<Rightarrow> Inr (Columns_Link None (chain_base_table c) (m_link_cols c)
                          (Some (m_comparison_type c)), c))
      else
        (case get_column_key (m_current_table chain) col of
           None \<Rightarrow> Inl (runtime_error (quoted (get_name (m_current_table chain))
                          @ '' has no property: '' @ quoted col))
         | Some col_key \<Rightarrow>
             if is_list col_key then
               (case primitive_type (get_col_type col_key) of
                  Some t \<Rightarrow> Inr (Columns_Lst t col_key (chain_base_table chain) (m_link_cols chain)
                                   (m_comparison_type chain), chain)
                | None \<Rightarrow>
                    if get_col_type col_key = col_type_LinkList then
                      (case LinkChain_add ops chain col_key of
                         Inl e \<Rightarrow> Inl e
                       | Inr c \<Rightarrow> Inr (Columns_Link (Some col_key) (chain_base_table c) (m_link_cols c)
                                        (Some (m_comparison_type c)), c))
                    else Inl (terminated ''REALM_UNREACHABLE''))
             else
               (case primitive_type (get_col_type col_key) of
                  Some t \<Rightarrow> Inr (Columns t col_key (chain_base_table chain) (m_link_cols chain), chain)
                | None \<Rightarrow>
                    if get_col_type col_key = col_type_Link then
                      (case LinkChain_add ops chain col_key of
                         Inl e \<Rightarrow> Inl e
                       | Inr c \<Rightarrow> Inr (Columns_Link (Some col_key) (chain_base_table c) (m_link_cols c)
                                        None, c))
                    else Inl (terminated ''REALM_UNREACHABLE''))))"

text \<open>\<^verbatim>\<open>PathNode::visit\<close>: the loop over the path elements, from a fresh chain.\<close>

fun PathNode_elems ::
  "chain_ops \<Rightarrow> Group \<Rightarrow> LinkChain \<Rightarrow> string list \<Rightarrow> error + LinkChain" where
  "PathNode_elems ops g chain [] = Inr chain"
| "PathNode_elems ops g chain (path_elem # rest) =
     (case (if str_find path_elem ''@links.'' = 0
            then LinkChain_backlink ops g chain path_elem
            else LinkChain_link ops chain path_elem) of
        Inl e \<Rightarrow> Inl e
      | Inr c \<Rightarrow> PathNode_elems ops g c rest)"

definition PathNode_visit ::
  "chain_ops \<Rightarrow> Group \<Rightarrow> string list \<Rightarrow> ParserDriver \<Rightarrow> ExpressionComparisonType
     \<Rightarrow> error + LinkChain" where
  "PathNode_visit ops g path_elems drv comp_type =
     PathNode_elems ops g
       \<lparr> chain_base_table = m_base_table drv, m_current_table = m_base_table drv,
         m_link_cols = [], m_comparison_type = comp_type \<rparr> path_elems"

record PropNode =
  path_elems :: "string list"
  prop_identifier :: string
  post_op :: "PostOpNode_Type option"
  comp_type :: ExpressionComparisonType

definition PropNode_visit ::
  "chain_ops \<Rightarrow> externals \<Rightarrow> Group \<Rightarrow> PropNode \<Rightarrow> PropertyNode" where
  "PropNode_visit ops ext g node drv =
     (case PathNode_visit ops g (path_elems node) drv (comp_type node) of
        Inl e \<Rightarrow> (Inl e, drv)
      | Inr chain \<Rightarrow>
          (case LinkChain_column ops g chain (prop_identifier node) of
             Inl e \<Rightarrow> (Inl e, drv)
           | Inr (subexpr, _) \<Rightarrow>
               (case post_op node of
                  Some t \<Rightarrow> (PostOpNode_visit ext t (Some subexpr), drv)
                | None \<Rightarrow> (Inr subexpr, drv))))"

section \<open>The slab allocator: header, footer and streaming form\<close>

type_synonym byte = "8 word"

datatype AttachMode =
    attach_None | attach_OwnedBuffer | attach_UsersBuffer | attach_SharedFile | attach_UnsharedFile

definition flags_SelectBit :: byte where
  "flags_SelectBit = 1"

definition flags_ServerSyncMode :: byte where
  "flags_ServerSyncMode = 2"

text \<open>The 24 bytes of \<^verbatim>\<open>Header\<close> and the 16 bytes of \<^verbatim>\<open>StreamingFooter\<close>.\<close>

record Header =
  m_top_ref :: "64 word list"
  m_mnemonic :: "byte list"
  m_file_format_version :: "byte list"
  m_reserved :: byte
  m_flags :: byte

record StreamingFooter =
  footer_top_ref :: "64 word"
  m_magic_cookie :: "64 word"

definition footer_magic_cookie :: "64 word" where
  "footer_magic_cookie = 0x3034125237E526C8"

text \<open>\<^verbatim>\<open>default_file_format_version\<close>: 3 when \<^verbatim>\<open>REALM_NULL_STRINGS == 1\<close>, else 2.\<close>

definition default_file_format_version :: "bool \<Rightarrow> nat" where
  "default_file_format_version null_strings = (if null_strings then 3 else 2)"

text \<open>The fields are little-endian.\<close>

fun le_nat :: "byte list \<Rightarrow> nat" where
  "le_nat [] = 0"
| "le_nat (b # bs) = unat b + 256 * le_nat bs"

definition read_Header :: "byte list \<Rightarrow> Header" where
  "read_Header data =
     \<lparr> m_top_ref = [of_nat (le_nat (take 8 data)), of_nat (le_nat (take 8 (drop 8 data)))],
       m_mnemonic = take 4 (drop 16 data),
       m_file_format_version = take 2 (drop 20 data),
       m_reserved = data ! 22,
       m_flags = data ! 23 \<rparr>"

definition read_StreamingFooter :: "byte list \<Rightarrow> StreamingFooter" where
  "read_StreamingFooter footer =
     \<lparr> footer_top_ref = of_nat (le_nat (take 8 footer)),
       m_magic_cookie = of_nat (le_nat (take 8 (drop 8 footer))) \<rparr>"

text \<open>
  Modelled from the spec: \<^verbatim>\<open>SlabAlloc::validate_buffer\<close> is declared in the header and
  defined in a file that is not among the sources.  The definition follows the five steps
  of the header validation algorithm: the length, the mnemonic \<^verbatim>\<open>"T-DB"\<close>, the format
  version against the supported one, the server-sync-mode bit against the caller's
  request, and the top-ref selected by bit 0 of the flags, which, when it is 0, is taken
  from the footer in the last 16 bytes of a buffer of 24+16 bytes at least whose magic
  cookie matches.  The first four steps are \<open>check_header\<close>.  The result is the top-ref
  and whether the file is on streaming form.
\<close>

definition check_header :: "nat \<Rightarrow> bool \<Rightarrow> byte list \<Rightarrow> error + Header" where
  "check_header version server_sync_mode data =
     (if length data < 24 then Inl InvalidDatabase
      else
        (let header = read_Header data in
         if m_mnemonic header \<noteq> [0x54, 0x2D, 0x44, 0x42] then Inl InvalidDatabase
         else if le_nat (m_file_format_version header) \<noteq> version then Inl InvalidDatabase
         else if (m_flags header AND flags_ServerSyncMode \<noteq> 0) \<noteq> server_sync_mode
           then Inl InvalidDatabase
         else Inr header))"

definition selected_top_ref :: "Header \<Rightarrow> 64 word" where
  "selected_top_ref header =
     m_top_ref header ! (if m_flags header AND flags_SelectBit = 0 then 0 else 1)"

definition validate_buffer :: "nat \<Rightarrow> bool \<Rightarrow> byte list \<Rightarrow> error + 64 word \<times> bool" where
  "validate_buffer version server_sync_mode data =
     (case check_header version server_sync_mode data of
        Inl e \<Rightarrow> Inl e
      | Inr header \<Rightarrow>
          if selected_top_ref header = 0 then
            (if length data < 24 + 16 then Inl InvalidDatabase
             else
               (let footer = read_StreamingFooter (drop (length data - 16) data) in
                if m_magic_cookie footer \<noteq> footer_magic_cookie then Inl InvalidDatabase
                else Inr (footer_top_ref footer, True)))
          else Inr (selected_top_ref header, False))"

text \<open>The members of \<^verbatim>\<open>SlabAlloc\<close> that streaming form concerns.\<close>

record SlabAlloc =
  m_attach_mode :: AttachMode
  m_file_on_streaming_form :: bool
  m_baseline :: nat

text \<open>
  Modelled from the spec: \<^verbatim>\<open>SlabAlloc::do_prepare_for_update\<close> is declared in the header
  and defined in a file that is not among the sources.  It rewrites the header so that its
  first top-ref slot holds the footer's top-ref, zeroes the footer region, which is the
  last 16 bytes below the baseline, and clears the streaming-form flag.  A baseline that
  leaves no room for header and footer inside the mapped bytes is outside what the
  function may be called with.
\<close>

definition do_prepare_for_update :: "SlabAlloc \<Rightarrow> byte list \<Rightarrow> error + SlabAlloc \<times> byte list" where
  "do_prepare_for_update alloc mutable_data =
     (let baseline = m_baseline alloc in
      if baseline < 24 + 16 \<or> length mutable_data < baseline
      then Inl (terminated ''footer outside the mapping'')
      else Inr (alloc\<lparr>m_file_on_streaming_form := False\<rparr>,
                take 8 (drop (baseline - 16) mutable_data)
                @ take (baseline - 16 - 8) (drop 8 mutable_data)
                @ replicate 16 0
                @ drop baseline mutable_data))"

text \<open>\<^verbatim>\<open>SlabAlloc::prepare_for_update\<close>, on the allocator and the mapped bytes.\<close>

definition prepare_for_update :: "SlabAlloc \<Rightarrow> byte list \<Rightarrow> error + SlabAlloc \<times> byte list" where
  "prepare_for_update alloc mutable_data =
     (if \<not> (m_attach_mode alloc = attach_SharedFile \<or> m_attach_mode alloc = attach_UnsharedFile)
      then Inl (terminated ''REALM_ASSERT(m_attach_mode == attach_SharedFile || m_attach_mode == attach_UnsharedFile)'')
      else if \<not> m_file_on_streaming_form alloc then Inr (alloc, mutable_data)
      else do_prepare_for_update alloc mutable_data)"

section \<open>What the spec says of comparisons and of printable names\<close>

text \<open>
  Modelled from the spec: the expression classes are declared outside the sources.
  \<^verbatim>\<open>Compare<Cond>(a, b)\<close> holds when \<^verbatim>\<open>Cond\<close> holds of the value of \<open>a\<close> and the value
  of \<open>b\<close>, in this order (the comparator's left-versus-right convention).  Only the order
  conditions are given a meaning here.
\<close>

fun Query_holds :: "(Subexpr \<Rightarrow> 'a::linorder) \<Rightarrow> Query \<Rightarrow> bool option" where
  "Query_holds val (Compare Less a b) = Some (val a < val b)"
| "Query_holds val (Compare Greater a b) = Some (val a > val b)"
| "Query_holds val (Compare LessEqual a b) = Some (val a \<le> val b)"
| "Query_holds val (Compare GreaterEqual a b) = Some (val a \<ge> val b)"
| "Query_holds val _ = None"

text \<open>The comparison as the predicate text writes it: \<open>x op y\<close>.\<close>

fun relational :: "CompareNode_op \<Rightarrow> 'a::linorder \<Rightarrow> 'a \<Rightarrow> bool option" where
  "relational GREATER x y = Some (x > y)"
| "relational LESS x y = Some (x < y)"
| "relational GREATER_EQUAL x y = Some (x \<ge> y)"
| "relational LESS_EQUAL x y = Some (x \<le> y)"
| "relational _ x y = None"

text \<open>The table name ``with any leading \<^verbatim>\<open>class_\<close> prefix stripped'', in the spec's words.\<close>

definition strip_class_prefix :: "string \<Rightarrow> string" where
  "strip_class_prefix name = (if prefix ''class_'' name then drop 6 name else name)"

section \<open>Sample inputs\<close>

definition sample_externals :: externals where
  "sample_externals =
     \<lparr> strtol = (\<lambda>s base. if s = ''1'' then 1 else if s = ''-1'' then - 1 else 0),
       strtof = (\<lambda>s. 0),
       strtod = (\<lambda>s. 0),
       sscanf = (\<lambda>s fmt. if s = ''1960-01-01@00:00:00:5'' \<and> fmt = ''%d-%d-%d@%d:%d:%d:%d''
                           then [1960, 1, 1, 0, 0, 0, 5] else []),
       platform_timegm = (\<lambda>t. if tm_year t = 60 then - 315619200 else 0),
       base64_decoded_size = (\<lambda>n. n),
       base64_decode = (\<lambda>window n. None),
       get_data_type_name = (\<lambda>t. if t = type_Int then ''int'' else ''other''),
       data_types_are_comparable = (\<lambda>a b. a = b),
       description = (\<lambda>e. ''expr'') \<rparr>"

definition sample_table :: Table where
  "sample_table =
     \<lparr> get_name = ''class_Person'',
       get_columns =
         [(''age'', ColKey col_type_Int False 0),
          (''id'', ColKey col_type_ObjectId False 1),
          (''uid'', ColKey col_type_UUID False 2),
          (''name'', ColKey col_type_String False 3),
          (''tags'', ColKey col_type_String True 4)] \<rparr>"

definition sample_account :: Table where
  "sample_account =
     \<lparr> get_name = ''class_Account'',
       get_columns = [(''owner'', ColKey col_type_Link False 0)] \<rparr>"

definition sample_group :: Group where
  "sample_group = [sample_table, sample_account]"

definition sample_driver :: ParserDriver where
  "sample_driver = \<lparr> m_base_table = sample_table, m_args = MixedArguments [] \<rparr>"

definition sample_chain_ops :: chain_ops where
  "sample_chain_ops =
     \<lparr> LinkChain_link = (\<lambda>chain name. Inr chain),
       LinkChain_backlink_from = (\<lambda>chain t ck. Inr (chain\<lparr>m_current_table := t, m_link_cols := m_link_cols chain @ [ck]\<rparr>)),
       LinkChain_add = (\<lambda>chain ck. Inr (chain\<lparr>m_link_cols := m_link_cols chain @ [ck]\<rparr>)) \<rparr>"

definition sample_chain :: LinkChain where
  "sample_chain =
     \<lparr> chain_base_table = sample_table, m_current_table = sample_table,
       m_link_cols = [], m_comparison_type = Any \<rparr>"

definition sample_property :: "string \<Rightarrow> ValueNode" where
  "sample_property name =
     \<lparr> v_constant = None,
       v_prop = Some (PropNode_visit sample_chain_ops sample_externals sample_group
                  \<lparr> path_elems = [], prop_identifier = name, post_op = None, comp_type = Any \<rparr>) \<rparr>"

definition sample_constant :: "ConstantNode_Type \<Rightarrow> string \<Rightarrow> ValueNode" where
  "sample_constant t text = \<lparr> v_constant = Some \<lparr> c_type = t, c_text = text \<rparr>, v_prop = None \<rparr>"

text \<open>Scenario 1 of the spec: the 24-byte header and the 16-byte footer.\<close>

definition sample_header :: "byte list" where
  "sample_header =
     [0, 0, 0, 0, 0, 0, 0, 0] @ [0, 0, 0, 0, 0, 0, 0, 0]
     @ [0x54, 0x2D, 0x44, 0x42] @ [3, 0] @ [0] @ [0]"

definition sample_footer :: "byte list" where
  "sample_footer = [0, 4, 0, 0, 0, 0, 0, 0] @ [0xC8, 0x26, 0xE5, 0x37, 0x52, 0x12, 0x34, 0x30]"

definition sample_alloc :: SlabAlloc where
  "sample_alloc =
     \<lparr> m_attach_mode = attach_UnsharedFile, m_file_on_streaming_form = True, m_baseline = 40 \<rparr>"

section \<open>Constants: timestamps and null\<close>

lemma neg_nonneg_sle:
  fixes x :: "32 word"
  assumes "\<not> x <s 0"
  shows "- x \<le>s 0"
proof -
  have nonneg: "0 \<le> sint x"
    using assms by (simp add: word_sless_alt)
  have upper: "sint x < 2 ^ 31"
    using sint_lt [of x] by simp
  have "sint (- x) = signed_take_bit 31 (- sint x)"
    by (simp add: sint_word_ariths)
  also have "\<dots> = - sint x"
    by (rule signed_take_bit_int_eq_self) (use nonneg upper in auto)
  finally show ?thesis
    using nonneg by (simp add: word_sle_eq)
qed

lemma readable_seconds_nanoseconds:
  assumes "char0 s \<noteq> CHR ''T''" "sscanf ext s (readable_format s) = vs" "6 \<le> length vs"
    "\<not> vs ! 0 - 1900 <s 0"
  shows "timestamp_seconds_nanoseconds ext s =
           (let parsed = (if length vs = 6 then 0 else vs ! 6);
                seconds = platform_timegm ext (broken_down_time vs)
            in if parsed <s 0
               then Inl (logic_error ''The nanoseconds of a Timestamp cannot be negative.'')
               else Inr (seconds, if seconds <s 0 then - parsed else parsed))"
  using assms
  by (simp add: timestamp_seconds_nanoseconds_def Let_def broken_down_time_def)

text \<open>
  C5.  \<^verbatim>\<open>get_timestamp_if_valid\<close> returns the timestamp exactly when seconds and
  nanoseconds are both non-negative or both non-positive, and throws ``Invalid timestamp
  format'' otherwise.  In the readable date form (the text does not start with \<open>T\<close>, six
  fields at least are converted, the year is not before 1900) negative parsed nanoseconds
  are rejected, the nanoseconds are negated when the seconds are negative, and the two
  components then carry the same sign, so that the timestamp is built.
\<close>

theorem timestamp_valid_iff_same_sign:
  "(get_timestamp_if_valid seconds nanoseconds =
      (if (0 \<le>s seconds \<and> 0 \<le>s nanoseconds) \<or> (seconds \<le>s 0 \<and> nanoseconds \<le>s 0)
       then Inr (Timestamp seconds nanoseconds)
       else Inl (runtime_error ''Invalid timestamp format'')))
   \<and> (char0 s \<noteq> CHR ''T'' \<longrightarrow> sscanf ext s (readable_format s) = vs \<longrightarrow> 6 \<le> length vs
        \<longrightarrow> \<not> vs ! 0 - 1900 <s 0 \<longrightarrow>
        (let parsed = (if length vs = 6 then 0 else vs ! 6);
             secs = platform_timegm ext (broken_down_time vs);
             nanos = (if secs <s 0 then - parsed else parsed)
         in ConstantNode_visit ext \<lparr>c_type = TIMESTAMP, c_text = s\<rparr> drv hint =
              (if parsed <s 0
               then Inl (logic_error ''The nanoseconds of a Timestamp cannot be negative.'')
               else Inr (Value_Timestamp (Timestamp secs nanos)), drv)
            \<and> (\<not> parsed <s 0 \<longrightarrow>
                 (0 \<le>s secs \<and> 0 \<le>s nanos) \<or> (secs \<le>s 0 \<and> nanos \<le>s 0))))"
proof (intro conjI impI)
  show "get_timestamp_if_valid seconds nanoseconds =
      (if (0 \<le>s seconds \<and> 0 \<le>s nanoseconds) \<or> (seconds \<le>s 0 \<and> nanoseconds \<le>s 0)
       then Inr (Timestamp seconds nanoseconds)
       else Inl (runtime_error ''Invalid timestamp format''))"
    by (simp add: get_timestamp_if_valid_def)
next
  assume a: "char0 s \<noteq> CHR ''T''" "sscanf ext s (readable_format s) = vs" "6 \<le> length vs"
    "\<not> vs ! 0 - 1900 <s 0"
  define parsed where "parsed = (if length vs = 6 then 0 else vs ! 6)"
  define secs where "secs = platform_timegm ext (broken_down_time vs)"
  define nanos where "nanos = (if secs <s 0 then - parsed else parsed)"
  have sign: "(0 \<le>s secs \<and> 0 \<le>s nanos) \<or> (secs \<le>s 0 \<and> nanos \<le>s 0)" if "\<not> parsed <s 0"
  proof (cases "secs <s 0")
    case True
    then have "secs \<le>s 0" by (simp add: word_sless_alt word_sle_eq)
    moreover have "nanos \<le>s 0" using True that by (simp add: nanos_def neg_nonneg_sle)
    ultimately show ?thesis by simp
  next
    case False
    then have "0 \<le>s secs" by (simp add: word_sless_alt word_sle_eq)
    moreover have "0 \<le>s nanos" using False that by (simp add: nanos_def word_sless_alt word_sle_eq)
    ultimately show ?thesis by simp
  qed
  have parse: "timestamp_seconds_nanoseconds ext s =
      (if parsed <s 0
       then Inl (logic_error ''The nanoseconds of a Timestamp cannot be negative.'')
       else Inr (secs, nanos))"
    using readable_seconds_nanoseconds [OF a]
    by (simp add: parsed_def secs_def nanos_def Let_def)
  have visit: "ConstantNode_visit ext \<lparr>c_type = TIMESTAMP, c_text = s\<rparr> drv hint =
              (if parsed <s 0
               then Inl (logic_error ''The nanoseconds of a Timestamp cannot be negative.'')
               else Inr (Value_Timestamp (Timestamp secs nanos)), drv)"
  proof (cases "parsed <s 0")
    case True
    then show ?thesis
      by (simp add: ConstantNode_visit_def ConstantNode_switch_def parse)
  next
    case False
    from sign [OF False] have "get_timestamp_if_valid secs nanos = Inr (Timestamp secs nanos)"
      by (simp add: get_timestamp_if_valid_def)
    with False show ?thesis
      by (simp add: ConstantNode_visit_def ConstantNode_switch_def parse)
  qed
  show "let parsed = (if length vs = 6 then 0 else vs ! 6);
             secs = platform_timegm ext (broken_down_time vs);
             nanos = (if secs <s 0 then - parsed else parsed)
         in ConstantNode_visit ext \<lparr>c_type = TIMESTAMP, c_text = s\<rparr> drv hint =
              (if parsed <s 0
               then Inl (logic_error ''The nanoseconds of a Timestamp cannot be negative.'')
               else Inr (Value_Timestamp (Timestamp secs nanos)), drv)
            \<and> (\<not> parsed <s 0 \<longrightarrow>
                 (0 \<le>s secs \<and> 0 \<le>s nanos) \<or> (secs \<le>s 0 \<and> nanos \<le>s 0))"
    unfolding Let_def parsed_def [symmetric] secs_def [symmetric] nanos_def [symmetric]
    using visit sign by blast
qed

theorem timestamp_valid_iff_same_sign_witness:
  "get_timestamp_if_valid 5 (- 1) = Inl (runtime_error ''Invalid timestamp format'')
   \<and> get_timestamp_if_valid (- 5) (- 1) = Inr (Timestamp (- 5) (- 1))
   \<and> ConstantNode_visit sample_externals
         \<lparr>c_type = TIMESTAMP, c_text = ''1960-01-01@00:00:00:5''\<rparr> sample_driver type_Timestamp =
       (Inr (Value_Timestamp (Timestamp (- 315619200) (- 5))), sample_driver)"
proof -
  have sign: "(- 315619200 :: int64_t) <s 0" "\<not> (5 :: int32_t) <s 0" "\<not> (60 :: int32_t) <s 0"
    "\<not> 0 \<le>s (- 1 :: int32_t)" "\<not> (5 :: int64_t) \<le>s 0" "(- 5 :: int64_t) \<le>s 0"
    "(- 1 :: int32_t) \<le>s 0"
    by (simp_all add: word_sless_alt word_sle_eq)
  have fmt: "readable_format ''1960-01-01@00:00:00:5'' = ''%d-%d-%d@%d:%d:%d:%d''"
    by (simp add: readable_format_def str_find_def npos_def)
  have scan: "sscanf sample_externals ''1960-01-01@00:00:00:5''
                (readable_format ''1960-01-01@00:00:00:5'') = [1960, 1, 1, 0, 0, 0, 5]"
    by (simp add: fmt sample_externals_def)
  have gm: "platform_timegm sample_externals (broken_down_time [1960, 1, 1, 0, 0, 0, 5]) = - 315619200"
    by (simp add: sample_externals_def broken_down_time_def)
  show ?thesis
    using timestamp_valid_iff_same_sign [of 5 "- 1" "''1960-01-01@00:00:00:5''" sample_externals
        "[1960, 1, 1, 0, 0, 0, 5]" sample_driver type_Timestamp]
      timestamp_valid_iff_same_sign [of "- 5" "- 1" "''1960-01-01@00:00:00:5''" sample_externals
        "[1960, 1, 1, 0, 0, 0, 5]" sample_driver type_Timestamp]
    by (simp add: scan gm sign char0_def Let_def)
qed

text \<open>
  C6.  A \<^verbatim>\<open>NULL\<close> constant compiles by the hint alone: the null string for
  \<^verbatim>\<open>String\<close>, the null binary for \<^verbatim>\<open>Binary\<close>, the error ``Cannot compare linklist
  with NULL'' for \<^verbatim>\<open>LinkList\<close>, and the typed null value for every other hint; the text
  and the driver play no part, and the driver is left as it was.
\<close>

theorem null_constant_by_hint:
  "ConstantNode_visit ext \<lparr>c_type = NULL_VAL, c_text = text\<rparr> drv hint =
     (if hint = type_String then Inr (ConstantStringValue None)
      else if hint = type_Binary then Inr (Value_BinaryData None)
      else if hint = type_LinkList then Inl (runtime_error ''Cannot compare linklist with NULL'')
      else Inr Value_null, drv)"
  by (simp add: ConstantNode_visit_def ConstantNode_switch_def)


theorem null_constant_by_hint_witness:
  "ConstantNode_visit sample_externals \<lparr>c_type = NULL_VAL, c_text = ''NULL''\<rparr> sample_driver type_String
     = (Inr (ConstantStringValue None), sample_driver)
   \<and> ConstantNode_visit sample_externals \<lparr>c_type = NULL_VAL, c_text = ''NULL''\<rparr> sample_driver type_Binary
     = (Inr (Value_BinaryData None), sample_driver)
   \<and> ConstantNode_visit sample_externals \<lparr>c_type = NULL_VAL, c_text = ''NULL''\<rparr> sample_driver type_LinkList
     = (Inl (runtime_error ''Cannot compare linklist with NULL''), sample_driver)
   \<and> ConstantNode_visit sample_externals \<lparr>c_type = NULL_VAL, c_text = ''NULL''\<rparr> sample_driver type_Int
     = (Inr Value_null, sample_driver)"
  using null_constant_by_hint [of sample_externals "''NULL''" sample_driver type_String]
    null_constant_by_hint [of sample_externals "''NULL''" sample_driver type_Binary]
    null_constant_by_hint [of sample_externals "''NULL''" sample_driver type_LinkList]
    null_constant_by_hint [of sample_externals "''NULL''" sample_driver type_Int]
  by simp

section \<open>Two-operand coercion and the comparison nodes\<close>

text \<open>
  C8.  When both value nodes of a comparison hold a constant, \<^verbatim>\<open>cmp\<close> throws ``Cannot
  compare two constants'', whatever the constants, the arguments and the library
  functions are, and leaves the driver as it was: no constant has been compiled.  The
  equality and the relational node fail with the same error.
\<close>

theorem two_constants_rejected:
  assumes "2 \<le> length values"
    and "v_constant (values ! 0) = Some c0"
    and "v_constant (values ! 1) = Some c1"
  shows "cmp ext drv values = (Inl (runtime_error ''Cannot compare two constants''), drv)
    \<and> EqualitylNode_visit ext values op case_sensitive drv =
        (Inl (runtime_error ''Cannot compare two constants''), drv)
    \<and> RelationalNode_visit ext values op drv =
        (Inl (runtime_error ''Cannot compare two constants''), drv)"
proof -
  have "cmp ext drv values = (Inl (runtime_error ''Cannot compare two constants''), drv)"
    using assms by (simp add: cmp_def)
  then show ?thesis
    by (simp add: EqualitylNode_visit_def RelationalNode_visit_def)
qed

lemma sample_constants_do_not_compile:
  "fst (ConstantNode_visit sample_externals \<lparr>c_type = TIMESTAMP, c_text = ''T1:-1''\<rparr> sample_driver hint)
     = Inl (runtime_error ''Invalid timestamp format'')"
  "fst (ConstantNode_visit sample_externals \<lparr>c_type = ARG, c_text = ''$7''\<rparr> sample_driver hint)
     = Inl out_of_range"
proof -
  have sign: "\<not> (1 :: int64_t) \<le>s 0" "\<not> 0 \<le>s (- 1 :: int32_t)"
    by (simp_all add: word_sle_eq)
  have narrow: "(ucast (- 1 :: int64_t) :: int32_t) = - 1"
    by (rule bit_word_eqI) (simp add: bit_simps)
  have parse: "timestamp_seconds_nanoseconds sample_externals ''T1:-1'' = Inr (1, - 1)"
    by (simp add: timestamp_seconds_nanoseconds_def char0_def str_find_def substr_def
        size_t_sub_def size_t_add_def npos_def sample_externals_def narrow)
  show "fst (ConstantNode_visit sample_externals \<lparr>c_type = TIMESTAMP, c_text = ''T1:-1''\<rparr> sample_driver hint)
     = Inl (runtime_error ''Invalid timestamp format'')"
    by (simp add: ConstantNode_visit_def ConstantNode_switch_def parse get_timestamp_if_valid_def sign)
  show "fst (ConstantNode_visit sample_externals \<lparr>c_type = ARG, c_text = ''$7''\<rparr> sample_driver hint)
     = Inl out_of_range"
    by (simp add: ConstantNode_visit_def ConstantNode_switch_def substr_def npos_def
        sample_externals_def sample_driver_def arg_value_def MixedArguments_def Mixed_at_def)
qed

theorem two_constants_rejected_witness:
  "cmp sample_externals sample_driver
     [sample_constant TIMESTAMP ''T1:-1'', sample_constant ARG ''$7'']
     = (Inl (runtime_error ''Cannot compare two constants''), sample_driver)
   \<and> EqualitylNode_visit sample_externals
        [sample_constant NUMBER ''1'', sample_constant NUMBER ''1''] EQUAL True sample_driver
     = (Inl (runtime_error ''Cannot compare two constants''), sample_driver)
   \<and> RelationalNode_visit sample_externals
        [sample_constant NUMBER ''1'', sample_constant NUMBER ''1''] GREATER sample_driver
     = (Inl (runtime_error ''Cannot compare two constants''), sample_driver)"
  using two_constants_rejected [of "[sample_constant TIMESTAMP ''T1:-1'', sample_constant ARG ''$7'']"
      "\<lparr>c_type = TIMESTAMP, c_text = ''T1:-1''\<rparr>" "\<lparr>c_type = ARG, c_text = ''$7''\<rparr>"
      sample_externals sample_driver EQUAL True]
    two_constants_rejected [of "[sample_constant NUMBER ''1'', sample_constant NUMBER ''1'']"
      "\<lparr>c_type = NUMBER, c_text = ''1''\<rparr>" "\<lparr>c_type = NUMBER, c_text = ''1''\<rparr>"
      sample_externals sample_driver EQUAL True]
    two_constants_rejected [of "[sample_constant NUMBER ''1'', sample_constant NUMBER ''1'']"
      "\<lparr>c_type = NUMBER, c_text = ''1''\<rparr>" "\<lparr>c_type = NUMBER, c_text = ''1''\<rparr>"
      sample_externals sample_driver GREATER True]
  by (simp add: sample_constant_def)

text \<open>
  C2.  When the left operand that \<^verbatim>\<open>cmp\<close> returns has type \<^verbatim>\<open>UUID\<close>, a relational
  node fails with the ``Unsupported operator'' error, for every operator and every right
  operand, one of type \<^verbatim>\<open>UUID\<close> included; no query is returned.
\<close>

theorem relational_uuid_unsupported:
  "get_type left = type_UUID \<longrightarrow>
     RelationalNode_operands ext op left right =
       Inl (logic_error (''Unsupported operator '' @ opstr op
              @ '' in query. Only equal (==) and not equal (!=) are supported for this type.''))
     \<and> (\<forall>q. RelationalNode_operands ext op left right \<noteq> Inr q)
     \<and> (cmp ext drv values = (Inr (left, right), d) \<longrightarrow>
          RelationalNode_visit ext values op drv =
            (Inl (logic_error (''Unsupported operator '' @ opstr op
               @ '' in query. Only equal (==) and not equal (!=) are supported for this type.'')), d))"
  by (simp add: RelationalNode_operands_def RelationalNode_visit_def unsupported_operator_def)

lemma sample_property_uid:
  "visit_prop (v_prop (sample_property ''uid'')) sample_driver =
     (Inr (Columns type_UUID (ColKey col_type_UUID False 2) sample_table []), sample_driver)"
  by (simp add: sample_property_def visit_prop_def PropNode_visit_def PathNode_visit_def
      LinkChain_column_def str_find_def npos_def get_column_key_def sample_table_def
      sample_driver_def)

lemma sample_uuid_constant:
  "ConstantNode_visit sample_externals
     \<lparr>c_type = UUID_T, c_text = ''uuid(3b241101-e2bb-4255-8caf-4136c566a962)''\<rparr> drv hint =
     (Inr (Value_UUID (UUID ''3b241101-e2bb-4255-8caf-4136c566a962'')), drv)"
  by (simp add: ConstantNode_visit_def ConstantNode_switch_def substr_def size_t_sub_def)

lemma sample_cmp_uuid:
  "cmp sample_externals sample_driver
     [sample_property ''uid'', sample_constant UUID_T ''uuid(3b241101-e2bb-4255-8caf-4136c566a962)''] =
   (Inr (Columns type_UUID (ColKey col_type_UUID False 2) sample_table [],
         Value_UUID (UUID ''3b241101-e2bb-4255-8caf-4136c566a962'')), sample_driver)"
proof -
  have c: "v_constant (sample_constant UUID_T ''uuid(3b241101-e2bb-4255-8caf-4136c566a962)'')
             = Some \<lparr>c_type = UUID_T, c_text = ''uuid(3b241101-e2bb-4255-8caf-4136c566a962)''\<rparr>"
    and p: "v_constant (sample_property ''uid'') = None"
    by (simp_all add: sample_constant_def sample_property_def)
  show ?thesis
    by (simp add: cmp_def c p sample_property_uid sample_uuid_constant)
qed

theorem relational_uuid_unsupported_witness:
  "RelationalNode_visit sample_externals
     [sample_property ''uid'', sample_constant UUID_T ''uuid(3b241101-e2bb-4255-8caf-4136c566a962)'']
     GREATER sample_driver =
   (Inl (logic_error
      ''Unsupported operator > in query. Only equal (==) and not equal (!=) are supported for this type.''),
    sample_driver)"
  using relational_uuid_unsupported
    [of "Columns type_UUID (ColKey col_type_UUID False 2) sample_table []" sample_externals GREATER
      "Value_UUID (UUID ''3b241101-e2bb-4255-8caf-4136c566a962'')" sample_driver
      "[sample_property ''uid'', sample_constant UUID_T ''uuid(3b241101-e2bb-4255-8caf-4136c566a962)'']"
      sample_driver]
  by (simp add: sample_cmp_uuid)

text \<open>
  C3.  A relational node that returns a query other than a column-specialized one (the
  generic path) returns the comparison with the operands swapped and the operator
  mirrored: \<open>left > right\<close> gives \<^verbatim>\<open>Compare<Less>(right, left)\<close>, \<open><\<close> gives
  \<^verbatim>\<open>Compare<Greater>\<close>, \<open>>=\<close> gives \<^verbatim>\<open>Compare<LessEqual>\<close> and \<open><=\<close> gives
  \<^verbatim>\<open>Compare<GreaterEqual>\<close>.  Under every valuation of the operands in a linear order
  the query holds exactly when the comparison as written holds.
\<close>

theorem relational_generic_swapped:
  assumes "RelationalNode_operands ext op left right = Inr q"
    and "\<nexists>op' ck v cs. q = simple_query op' ck v cs"
    and "op \<in> {GREATER, LESS, GREATER_EQUAL, LESS_EQUAL}"
  shows "(op = GREATER \<longrightarrow> q = Compare Less right left)
    \<and> (op = LESS \<longrightarrow> q = Compare Greater right left)
    \<and> (op = GREATER_EQUAL \<longrightarrow> q = Compare LessEqual right left)
    \<and> (op = LESS_EQUAL \<longrightarrow> q = Compare GreaterEqual right left)
    \<and> (\<forall>val :: Subexpr \<Rightarrow> 'a::linorder.
          Query_holds val q = relational op (val left) (val right) \<and> Query_holds val q \<noteq> None)"
proof -
  have spec: "Relational_specialized op left right = None"
  proof (rule ccontr)
    assume "Relational_specialized op left right \<noteq> None"
    then obtain r where r: "Relational_specialized op left right = Some r"
      by auto
    then have "\<exists>ck t v cs. r = simple op ck t v cs"
      by (auto simp: Relational_specialized_def Let_def split: option.splits if_splits DataType.splits)
    then obtain ck t v cs where "r = simple op ck t v cs"
      by blast
    moreover have "r = Inr q"
      using assms(1) r
      by (simp add: RelationalNode_operands_def Let_def split: if_splits)
    ultimately have "\<exists>v'. q = simple_query op ck v' cs"
      by (auto simp: simple_def split: sum.splits)
    with assms(2) show False
      by blast
  qed
  have q: "q = Relational_generic op left right"
    using assms(1) spec
    by (simp add: RelationalNode_operands_def Let_def split: if_splits)
  from assms(3) show ?thesis
    by (auto simp: q Relational_generic_def)
qed

theorem relational_generic_swapped_witness:
  "RelationalNode_operands sample_externals GREATER
     (Columns type_String (ColKey col_type_String False 3) sample_table [])
     (ConstantStringValue (Some ''bob''))
   = Inr (Compare Less (ConstantStringValue (Some ''bob''))
            (Columns type_String (ColKey col_type_String False 3) sample_table []))
   \<and> (\<forall>val :: Subexpr \<Rightarrow> int.
        Query_holds val (Compare Less (ConstantStringValue (Some ''bob''))
            (Columns type_String (ColKey col_type_String False 3) sample_table []))
        = Some (val (Columns type_String (ColKey col_type_String False 3) sample_table [])
                > val (ConstantStringValue (Some ''bob''))))"
proof -
  have run: "RelationalNode_operands sample_externals GREATER
     (Columns type_String (ColKey col_type_String False 3) sample_table [])
     (ConstantStringValue (Some ''bob''))
   = Inr (Compare Less (ConstantStringValue (Some ''bob''))
            (Columns type_String (ColKey col_type_String False 3) sample_table []))"
    by (simp add: RelationalNode_operands_def Relational_specialized_def Relational_generic_def
        links_exist_def sample_externals_def)
  show ?thesis
    using relational_generic_swapped [OF run, where 'a = int]
    by (simp add: run)
qed

text \<open>
  C1.  An equality or inequality between a property without link traversal and a
  constant-evaluable operand of the same type, the types being comparable: when the type
  is \<^verbatim>\<open>ObjectId\<close> the node returns the generic \<^verbatim>\<open>Compare<Equal>\<close> or
  \<^verbatim>\<open>Compare<NotEqual>\<close> (their \<^verbatim>\<open>Ins\<close> variants when not case sensitive) of the swapped
  operands; when the type is one of integer, bool, string, binary, timestamp, float,
  double, decimal and UUID it returns a column-specialized query, the column against null
  or \<^verbatim>\<open>simple_query\<close>, and no \<^verbatim>\<open>Compare\<close>.  With the constant written on the left
  the node returns the generic expression whatever the type is.
\<close>

theorem equality_objectid_generic:
  assumes "op = EQUAL \<or> op = NOT_EQUAL"
    and "as_ObjPropertyBase left = Some p"
    and "\<not> links_exist p"
    and "has_constant_evaluation right"
    and "get_type left = get_type right"
    and "data_types_are_comparable ext (get_type left) (get_type right)"
  shows "(get_type left = type_ObjectId \<longrightarrow>
           EqualitylNode_operands ext drv op case_sensitive left right =
             Inr (Compare (if case_sensitive then (if op = EQUAL then Equal else NotEqual)
                           else (if op = EQUAL then EqualIns else NotEqualIns)) right left))
    \<and> (get_type left \<in> {type_Int, type_Bool, type_String, type_Binary, type_Timestamp,
                          type_Float, type_Double, type_Decimal, type_UUID} \<longrightarrow>
           EqualitylNode_operands ext drv op case_sensitive left right =
             Inr (if is_null (get_mixed right)
                  then (if op = EQUAL then where_equal_null (m_base_table drv) (column_key p)
                        else where_not_equal_null (m_base_table drv) (column_key p))
                  else simple_query op (column_key p) (get_mixed right)
                         (if get_type left = type_String \<or> get_type left = type_Binary
                          then Some case_sensitive else None)))
    \<and> (data_types_are_comparable ext (get_type right) (get_type left) \<longrightarrow>
           EqualitylNode_operands ext drv op case_sensitive right left =
             Inr (Compare (if case_sensitive then (if op = EQUAL then Equal else NotEqual)
                           else (if op = EQUAL then EqualIns else NotEqualIns)) left right))"
proof (intro conjI impI)
  assume oid: "get_type left = type_ObjectId"
  with assms(4,5) have "\<not> is_null (get_mixed right)"
    by (cases right) auto
  with assms oid show "EqualitylNode_operands ext drv op case_sensitive left right =
             Inr (Compare (if case_sensitive then (if op = EQUAL then Equal else NotEqual)
                           else (if op = EQUAL then EqualIns else NotEqualIns)) right left)"
    by (auto simp: EqualitylNode_operands_def Equality_specialized_def Equality_generic_def Let_def)
next
  assume fast: "get_type left \<in> {type_Int, type_Bool, type_String, type_Binary, type_Timestamp,
                          type_Float, type_Double, type_Decimal, type_UUID}"
  have typed: "Mixed_get_type (get_mixed right) = get_type right" if "\<not> is_null (get_mixed right)"
    using that assms(4) by (cases right) (auto split: option.splits)
  show "EqualitylNode_operands ext drv op case_sensitive left right =
             Inr (if is_null (get_mixed right)
                  then (if op = EQUAL then where_equal_null (m_base_table drv) (column_key p)
                        else where_not_equal_null (m_base_table drv) (column_key p))
                  else simple_query op (column_key p) (get_mixed right)
                         (if get_type left = type_String \<or> get_type left = type_Binary
                          then Some case_sensitive else None))"
  proof (cases "is_null (get_mixed right)")
    case True
    with assms show ?thesis
      by (auto simp: EqualitylNode_operands_def Equality_specialized_def Let_def)
  next
    case False
    from typed [OF False] assms(5) have "Mixed_get_type (get_mixed right) = get_type left"
      by simp
    with False fast assms show ?thesis
      by (auto simp: EqualitylNode_operands_def Equality_specialized_def Let_def simple_def
          Mixed_get_def)
  qed
next
  assume comparable: "data_types_are_comparable ext (get_type right) (get_type left)"
  from assms(4) have "as_ObjPropertyBase right = None"
    by (cases right) auto
  with assms(1) comparable
  show "EqualitylNode_operands ext drv op case_sensitive right left =
             Inr (Compare (if case_sensitive then (if op = EQUAL then Equal else NotEqual)
                           else (if op = EQUAL then EqualIns else NotEqualIns)) left right)"
    by (auto simp: EqualitylNode_operands_def Equality_specialized_def Equality_generic_def Let_def)
qed

lemma sample_property_id:
  "visit_prop (v_prop (sample_property ''id'')) sample_driver =
     (Inr (Columns type_ObjectId (ColKey col_type_ObjectId False 1) sample_table []), sample_driver)"
  by (simp add: sample_property_def visit_prop_def PropNode_visit_def PathNode_visit_def
      LinkChain_column_def str_find_def npos_def get_column_key_def sample_table_def
      sample_driver_def)

lemma sample_oid_constant:
  "ConstantNode_visit sample_externals
     \<lparr>c_type = OID, c_text = ''oid(5f9a1b2c3d4e5f6a7b8c9d0e)''\<rparr> drv hint =
     (Inr (Value_ObjectId (ObjectId ''5f9a1b2c3d4e5f6a7b8c9d0e'')), drv)"
  by (simp add: ConstantNode_visit_def ConstantNode_switch_def substr_def size_t_sub_def)

lemma sample_cmp_oid:
  "cmp sample_externals sample_driver
     [sample_property ''id'', sample_constant OID ''oid(5f9a1b2c3d4e5f6a7b8c9d0e)''] =
   (Inr (Columns type_ObjectId (ColKey col_type_ObjectId False 1) sample_table [],
         Value_ObjectId (ObjectId ''5f9a1b2c3d4e5f6a7b8c9d0e'')), sample_driver)"
proof -
  have c: "v_constant (sample_constant OID ''oid(5f9a1b2c3d4e5f6a7b8c9d0e)'')
             = Some \<lparr>c_type = OID, c_text = ''oid(5f9a1b2c3d4e5f6a7b8c9d0e)''\<rparr>"
    and p: "v_constant (sample_property ''id'') = None"
    by (simp_all add: sample_constant_def sample_property_def)
  show ?thesis
    by (simp add: cmp_def c p sample_property_id sample_oid_constant)
qed

theorem equality_objectid_generic_witness:
  "EqualitylNode_visit sample_externals
     [sample_property ''id'', sample_constant OID ''oid(5f9a1b2c3d4e5f6a7b8c9d0e)'']
     EQUAL True sample_driver =
   (Inr (Compare Equal (Value_ObjectId (ObjectId ''5f9a1b2c3d4e5f6a7b8c9d0e''))
           (Columns type_ObjectId (ColKey col_type_ObjectId False 1) sample_table [])),
    sample_driver)
   \<and> EqualitylNode_operands sample_externals sample_driver NOT_EQUAL False
       (Columns type_Int (ColKey col_type_Int False 0) sample_table []) (Value_int64_t 30)
     = Inr (simple_query NOT_EQUAL (ColKey col_type_Int False 0) (Mixed_Int 30) None)
   \<and> EqualitylNode_operands sample_externals sample_driver EQUAL True
       (Value_ObjectId (ObjectId ''5f9a1b2c3d4e5f6a7b8c9d0e''))
       (Columns type_ObjectId (ColKey col_type_ObjectId False 1) sample_table [])
     = Inr (Compare Equal (Columns type_ObjectId (ColKey col_type_ObjectId False 1) sample_table [])
              (Value_ObjectId (ObjectId ''5f9a1b2c3d4e5f6a7b8c9d0e'')))"
proof -
  let ?id = "Columns type_ObjectId (ColKey col_type_ObjectId False 1) sample_table []"
  let ?oid = "Value_ObjectId (ObjectId ''5f9a1b2c3d4e5f6a7b8c9d0e'')"
  let ?age = "Columns type_Int (ColKey col_type_Int False 0) sample_table []"
  have comparable: "data_types_are_comparable sample_externals t t" for t
    by (simp add: sample_externals_def)
  have id: "as_ObjPropertyBase ?id = Some (ObjPropertyBase (ColKey col_type_ObjectId False 1) [])"
    "\<not> links_exist (ObjPropertyBase (ColKey col_type_ObjectId False 1) [])"
    "has_constant_evaluation ?oid" "get_type ?id = get_type ?oid"
    "data_types_are_comparable sample_externals (get_type ?id) (get_type ?oid)"
    by (simp_all add: links_exist_def comparable)
  have age: "as_ObjPropertyBase ?age = Some (ObjPropertyBase (ColKey col_type_Int False 0) [])"
    "\<not> links_exist (ObjPropertyBase (ColKey col_type_Int False 0) [])"
    "has_constant_evaluation (Value_int64_t 30)" "get_type ?age = get_type (Value_int64_t 30)"
    "data_types_are_comparable sample_externals (get_type ?age) (get_type (Value_int64_t 30))"
    by (simp_all add: links_exist_def comparable)
  have "EqualitylNode_operands sample_externals sample_driver EQUAL True ?id ?oid
          = Inr (Compare Equal ?oid ?id)"
    using equality_objectid_generic [OF _ id, of EQUAL sample_driver True]
    by simp
  moreover have "EqualitylNode_operands sample_externals sample_driver EQUAL True ?oid ?id
          = Inr (Compare Equal ?id ?oid)"
    using equality_objectid_generic [OF _ id, of EQUAL sample_driver True]
    by (simp add: comparable)
  moreover have "EqualitylNode_operands sample_externals sample_driver NOT_EQUAL False
       ?age (Value_int64_t 30)
     = Inr (simple_query NOT_EQUAL (ColKey col_type_Int False 0) (Mixed_Int 30) None)"
    using equality_objectid_generic [OF _ age, of NOT_EQUAL sample_driver False]
    by simp
  ultimately show ?thesis
    by (simp add: EqualitylNode_visit_def sample_cmp_oid)
qed

section \<open>Backlinks and post-operators\<close>

lemma find_first_dot:
  "CHR ''.'' \<notin> set T \<Longrightarrow> find_first ''.'' (T @ ''.'' @ C) = Some (length T)"
  by (induction T) auto

lemma printable_is_stripped:
  assumes "name \<noteq> ''class_''"
  shows "get_printable_table_name name = strip_class_prefix name"
proof (cases "prefix ''class_'' name")
  case True
  then obtain r where r: "name = ''class_'' @ r"
    by (auto simp: prefix_def)
  with assms have "r \<noteq> []"
    by auto
  with r True show ?thesis
    by (simp add: get_printable_table_name_def strip_class_prefix_def)
next
  case False
  have "\<not> (length ''class_'' < length name \<and> take (length ''class_'') name = ''class_'')"
  proof
    assume "length ''class_'' < length name \<and> take (length ''class_'') name = ''class_''"
    then have "name = ''class_'' @ drop (length ''class_'') name"
      by (metis append_take_drop_id)
    then have "prefix ''class_'' name"
      by (metis prefixI)
    with False show False
      by simp
  qed
  with False show ?thesis
    by (auto simp: get_printable_table_name_def strip_class_prefix_def Let_def)
qed

lemma sublist_quoted: "sublist s (a @ quoted s @ b)"
proof -
  have "a @ quoted s @ b = (a @ [CHR 0x27]) @ s @ ([CHR 0x27] @ b)"
    by (simp add: quoted_def)
  then show ?thesis
    by (metis sublist_appendI)
qed

text \<open>
  C7.  For a backlink segment \<^verbatim>\<open>@links.TABLE.COL\<close>, \<open>TABLE\<close> having no dot, the resolver
  looks \<open>TABLE\<close> up in the parent group and then \<open>COL\<close> on that table, and goes on with the
  table and the column found; when either lookup fails it throws the ``No property'' error
  of \<open>COL\<close>, of the printable name of \<open>TABLE\<close> and of the printable name of the current
  table.  The message contains the table name with any leading \<^verbatim>\<open>class_\<close> prefix
  stripped.
\<close>

theorem backlink_lookup_or_no_property:
  assumes "path_elem = ''@links.'' @ T @ ''.'' @ C"
    and "CHR ''.'' \<notin> set T"
    and "length path_elem < 2 ^ 64 - 1"
  shows "(let message = ''No property '' @ quoted C @ '' found in type ''
                 @ quoted (get_printable_table_name T) @ '' which links to type ''
                 @ quoted (get_printable_table_name (get_name (m_current_table chain)))
          in LinkChain_backlink ops g chain path_elem =
               (case get_table g T of
                  None \<Rightarrow> Inl (runtime_error message)
                | Some t \<Rightarrow>
                    (case get_column_key t C of
                       None \<Rightarrow> Inl (runtime_error message)
                     | Some ck \<Rightarrow> LinkChain_backlink_from ops chain t ck))
             \<and> sublist (strip_class_prefix T) message)"
proof -
  define pair where "pair = T @ ''.'' @ C"
  have len: "length T + length C + 8 < 2 ^ 64 - 1"
    using assms(1,3) by simp
  have pair: "substr path_elem 7 npos = Inr pair"
    using assms(1) len by (simp add: substr_def npos_def pair_def)
  have dot: "str_find pair ''.'' = length T"
    using find_first_dot [OF assms(2), of C] by (simp add: str_find_def pair_def)
  have tab: "substr pair 0 (length T) = Inr T"
    by (simp add: substr_def pair_def)
  have next_pos: "size_t_add (length T) (Suc 0) = Suc (length T)"
    using len by (simp add: size_t_add_def)
  have col: "substr pair (Suc (length T)) npos = Inr C"
    using len by (simp add: substr_def npos_def pair_def)
  have run: "LinkChain_backlink ops g chain path_elem =
               (case get_table g T of
                  None \<Rightarrow> Inl (no_property C T (get_name (m_current_table chain)))
                | Some t \<Rightarrow>
                    (case get_column_key t C of
                       None \<Rightarrow> Inl (no_property C T (get_name (m_current_table chain)))
                     | Some ck \<Rightarrow> LinkChain_backlink_from ops chain t ck))"
    unfolding LinkChain_backlink_def pair Let_def
    by (simp add: dot tab next_pos col split: option.splits)
  have contains: "sublist (strip_class_prefix T)
      (''No property '' @ quoted C @ '' found in type ''
        @ quoted (get_printable_table_name T) @ '' which links to type ''
        @ quoted (get_printable_table_name (get_name (m_current_table chain))))"
  proof (cases "T = ''class_''")
    case True
    then show ?thesis
      by (simp add: strip_class_prefix_def)
  next
    case False
    have "sublist (get_printable_table_name T)
      ((''No property '' @ quoted C @ '' found in type '')
        @ quoted (get_printable_table_name T) @ ('' which links to type ''
        @ quoted (get_printable_table_name (get_name (m_current_table chain)))))"
      by (rule sublist_quoted)
    then show ?thesis
      by (simp add: printable_is_stripped [OF False])
  qed
  show ?thesis
    unfolding Let_def by (rule conjI [OF run [unfolded no_property_def] contains])
qed

theorem backlink_lookup_or_no_property_witness:
  "LinkChain_backlink sample_chain_ops sample_group sample_chain ''@links.class_Nope.owner'' =
     Inl (runtime_error
       (''No property 'owner' found in type 'Nope' which links to type 'Person'' @ [CHR 0x27]))
   \<and> LinkChain_backlink sample_chain_ops sample_group sample_chain ''@links.class_Account.holder'' =
     Inl (runtime_error
       (''No property 'holder' found in type 'Account' which links to type 'Person'' @ [CHR 0x27]))
   \<and> LinkChain_backlink sample_chain_ops sample_group sample_chain ''@links.class_Account.owner'' =
     Inr (sample_chain\<lparr>m_current_table := sample_account,
                        m_link_cols := [ColKey col_type_Link False 0]\<rparr>)"
proof -
  have tables: "get_table sample_group ''class_Nope'' = None"
    "get_table sample_group ''class_Account'' = Some sample_account"
    by (simp_all add: get_table_def sample_group_def sample_table_def sample_account_def)
  have columns: "get_column_key sample_account ''holder'' = None"
    "get_column_key sample_account ''owner'' = Some (ColKey col_type_Link False 0)"
    by (simp_all add: get_column_key_def sample_account_def)
  have names: "get_printable_table_name ''class_Nope'' = ''Nope''"
    "get_printable_table_name ''class_Account'' = ''Account''"
    "get_printable_table_name (get_name (m_current_table sample_chain)) = ''Person''"
    by (simp_all add: get_printable_table_name_def sample_chain_def sample_table_def)
  have step: "LinkChain_backlink_from sample_chain_ops sample_chain sample_account
                (ColKey col_type_Link False 0) =
              Inr (sample_chain\<lparr>m_current_table := sample_account,
                                 m_link_cols := [ColKey col_type_Link False 0]\<rparr>)"
    by (simp add: sample_chain_ops_def sample_chain_def)
  show ?thesis
    using backlink_lookup_or_no_property
        [of "''@links.class_Nope.owner''" "''class_Nope''" "''owner''"
          sample_chain sample_chain_ops sample_group]
      backlink_lookup_or_no_property
        [of "''@links.class_Account.holder''" "''class_Account''" "''holder''"
          sample_chain sample_chain_ops sample_group]
      backlink_lookup_or_no_property
        [of "''@links.class_Account.owner''" "''class_Account''" "''owner''"
          sample_chain sample_chain_ops sample_group]
    by (simp add: tables columns names step quoted_def Let_def)
qed

text \<open>
  C10.  \<^verbatim>\<open>.@count\<close> and \<^verbatim>\<open>.@size\<close> compile alike.  The result is chosen by the kind of
  the subexpression: a link column gives its count; a list column, a string column and a
  binary column give their size; anything else gives an error whose message alone names
  the operator.  So one of them returns a subexpression exactly when the other returns the
  same one, and one fails exactly when the other does.
\<close>

theorem post_op_count_size_agree:
  "(PostOpNode_visit ext COUNT subexpr = Inr r \<longleftrightarrow> PostOpNode_visit ext SIZE subexpr = Inr r)
   \<and> ((\<exists>e. PostOpNode_visit ext COUNT subexpr = Inl e) \<longleftrightarrow>
       (\<exists>e. PostOpNode_visit ext SIZE subexpr = Inl e))
   \<and> (subexpr = Some s \<longrightarrow>
        PostOpNode_visit ext t subexpr =
          (if is_Columns_Link s then Inr (LinkCount s)
           else if is_ColumnListBase s \<or> is_Columns_StringData s \<or> is_Columns_BinaryData s
             then Inr (SizeOperator s)
           else Inl (runtime_error (''Operation '' @ quoted (post_op_type_to_str t)
                       @ '' is not supported on property of type ''
                       @ quoted (get_data_type_name ext (get_type s))))))"
  by (auto simp: PostOpNode_visit_def split: option.splits)

theorem post_op_count_size_agree_witness:
  "PostOpNode_visit sample_externals COUNT
     (Some (Columns type_String (ColKey col_type_String False 3) sample_table [])) =
     Inr (SizeOperator (Columns type_String (ColKey col_type_String False 3) sample_table []))
   \<and> PostOpNode_visit sample_externals SIZE
     (Some (Columns type_String (ColKey col_type_String False 3) sample_table [])) =
     Inr (SizeOperator (Columns type_String (ColKey col_type_String False 3) sample_table []))
   \<and> PostOpNode_visit sample_externals SIZE
     (Some (Columns type_Int (ColKey col_type_Int False 0) sample_table [])) =
     Inl (runtime_error (''Operation '.@size' is not supported on property of type 'int'' @ [CHR 0x27]))
   \<and> PostOpNode_visit sample_externals COUNT
     (Some (Columns type_Int (ColKey col_type_Int False 0) sample_table [])) =
     Inl (runtime_error (''Operation '.@count' is not supported on property of type 'int'' @ [CHR 0x27]))"
proof -
  let ?name = "Columns type_String (ColKey col_type_String False 3) sample_table []"
  let ?age = "Columns type_Int (ColKey col_type_Int False 0) sample_table []"
  have type_name: "get_data_type_name sample_externals type_Int = ''int''"
    by (simp add: sample_externals_def)
  note on_name = post_op_count_size_agree
    [of sample_externals "Some ?name" "SizeOperator ?name" ?name COUNT]
  have count_name: "PostOpNode_visit sample_externals COUNT (Some ?name) = Inr (SizeOperator ?name)"
    using on_name by simp
  have size_name: "PostOpNode_visit sample_externals SIZE (Some ?name) = Inr (SizeOperator ?name)"
    using on_name count_name by blast
  have size_age: "PostOpNode_visit sample_externals SIZE (Some ?age) =
     Inl (runtime_error (''Operation '.@size' is not supported on property of type 'int'' @ [CHR 0x27]))"
    using post_op_count_size_agree
      [of sample_externals "Some ?age" "SizeOperator ?age" ?age SIZE]
    by (simp add: type_name quoted_def)
  have count_age: "PostOpNode_visit sample_externals COUNT (Some ?age) =
     Inl (runtime_error (''Operation '.@count' is not supported on property of type 'int'' @ [CHR 0x27]))"
    using post_op_count_size_agree
      [of sample_externals "Some ?age" "SizeOperator ?age" ?age COUNT]
    by (simp add: type_name quoted_def)
  show ?thesis
    using count_name size_name size_age count_age by simp
qed

section \<open>Streaming form\<close>

text \<open>
  C4.  When the header passes the checks of length, mnemonic, version and server-sync
  mode, and the top-ref selected by bit 0 of the flags is 0, the file is treated as on
  streaming form: a buffer shorter than 24+16 bytes, or whose last 8 bytes are not the
  magic cookie \<open>0x3034125237E526C8\<close>, is rejected with \<^verbatim>\<open>InvalidDatabase\<close>; otherwise
  validation succeeds, marks the file as on streaming form, and returns the 64-bit value in
  the first 8 of the last 16 bytes.
\<close>

theorem streaming_form_validation:
  assumes "check_header version server_sync_mode data = Inr header"
    and "selected_top_ref header = 0"
  shows "validate_buffer version server_sync_mode data =
     (if length data < 24 + 16
         \<or> (of_nat (le_nat (drop (length data - 8) data)) :: 64 word) \<noteq> 0x3034125237E526C8
      then Inl InvalidDatabase
      else Inr (of_nat (le_nat (take 8 (drop (length data - 16) data))), True))"
proof (cases "length data < 24 + 16")
  case True
  with assms show ?thesis
    by (simp add: validate_buffer_def)
next
  case False
  then have "take 8 (drop 8 (drop (length data - 16) data)) = drop (length data - 8) data"
    by simp
  with False assms show ?thesis
    by (simp add: validate_buffer_def read_StreamingFooter_def footer_magic_cookie_def Let_def)
qed

lemma sample_header_checked:
  "check_header 3 False sample_header = Inr (read_Header sample_header)"
  "check_header 3 False (sample_header @ sample_footer) = Inr (read_Header (sample_header @ sample_footer))"
  "selected_top_ref (read_Header sample_header) = 0"
  "selected_top_ref (read_Header (sample_header @ sample_footer)) = 0"
  by (simp_all add: check_header_def read_Header_def selected_top_ref_def sample_header_def
      sample_footer_def flags_ServerSyncMode_def flags_SelectBit_def)

theorem streaming_form_validation_witness:
  "validate_buffer 3 False sample_header = Inl InvalidDatabase
   \<and> validate_buffer 3 False (sample_header @ sample_footer) = Inr (1024, True)"
proof -
  have short: "validate_buffer 3 False sample_header = Inl InvalidDatabase"
    using streaming_form_validation [OF sample_header_checked(1) sample_header_checked(3)]
    by (simp add: sample_header_def)
  have footer: "validate_buffer 3 False (sample_header @ sample_footer) = Inr (1024, True)"
    using streaming_form_validation [OF sample_header_checked(2) sample_header_checked(4)]
    by (simp add: sample_header_def sample_footer_def)
  from short footer show ?thesis
    by simp
qed

text \<open>
  C9.  On an allocator attached to a file, \<^verbatim>\<open>prepare_for_update\<close> changes nothing when the
  file is not on streaming form; whatever a call returns, a second call on it returns the
  same allocator and the same bytes; and on a file on streaming form, with room for header
  and footer below the baseline, the call clears the streaming-form flag, puts the
  footer's top-ref into the first top-ref slot of the header, zeroes the footer region, and
  leaves the rest of the header and the length as they were.
\<close>

theorem prepare_for_update_idempotent:
  assumes "m_attach_mode alloc = attach_SharedFile \<or> m_attach_mode alloc = attach_UnsharedFile"
  shows "(\<not> m_file_on_streaming_form alloc \<longrightarrow> prepare_for_update alloc data = Inr (alloc, data))
    \<and> (\<forall>alloc' data'. prepare_for_update alloc data = Inr (alloc', data') \<longrightarrow>
          prepare_for_update alloc' data' = Inr (alloc', data'))
    \<and> (m_file_on_streaming_form alloc \<longrightarrow> 24 + 16 \<le> m_baseline alloc
          \<longrightarrow> m_baseline alloc \<le> length data \<longrightarrow>
          (\<exists>data'. prepare_for_update alloc data = Inr (alloc\<lparr>m_file_on_streaming_form := False\<rparr>, data')
             \<and> length data' = length data
             \<and> m_top_ref (read_Header data') ! 0 =
                 footer_top_ref (read_StreamingFooter (drop (m_baseline alloc - 16) data))
             \<and> take 16 (drop (m_baseline alloc - 16) data') = replicate 16 0
             \<and> drop 8 (take 24 data') = drop 8 (take 24 data)))"
proof (intro conjI allI impI)
  assume "\<not> m_file_on_streaming_form alloc"
  with assms show "prepare_for_update alloc data = Inr (alloc, data)"
    by (simp add: prepare_for_update_def)
next
  fix alloc' data'
  assume first: "prepare_for_update alloc data = Inr (alloc', data')"
  have "m_attach_mode alloc' = m_attach_mode alloc \<and> \<not> m_file_on_streaming_form alloc'"
    using first assms
    by (auto simp: prepare_for_update_def do_prepare_for_update_def Let_def split: if_splits)
  with assms show "prepare_for_update alloc' data' = Inr (alloc', data')"
    by (simp add: prepare_for_update_def)
next
  assume streaming: "m_file_on_streaming_form alloc"
    and low: "24 + 16 \<le> m_baseline alloc" and high: "m_baseline alloc \<le> length data"
  define b where "b = m_baseline alloc"
  define data' where "data' = take 8 (drop (b - 16) data) @ take (b - 16 - 8) (drop 8 data)
                                @ replicate 16 0 @ drop b data"
  have b: "40 \<le> b" "b \<le> length data"
    using low high by (simp_all add: b_def)
  have run: "prepare_for_update alloc data = Inr (alloc\<lparr>m_file_on_streaming_form := False\<rparr>, data')"
    using assms streaming b
    by (simp add: prepare_for_update_def do_prepare_for_update_def Let_def b_def [symmetric]
        data'_def)
  have len: "length data' = length data"
    using b by (simp add: data'_def)
  have head: "take 8 data' = take 8 (drop (b - 16) data)"
    using b by (simp add: data'_def)
  have slot: "m_top_ref (read_Header data') ! 0 =
                footer_top_ref (read_StreamingFooter (drop (b - 16) data))"
    by (simp add: read_Header_def read_StreamingFooter_def head)
  have zero: "take 16 (drop (b - 16) data') = replicate 16 0"
    using b by (simp add: data'_def)
  have "take 24 data' = take 8 (drop (b - 16) data) @ take 16 (drop 8 data)"
    using b by (simp add: data'_def)
  then have rest: "drop 8 (take 24 data') = drop 8 (take 24 data)"
    using b by (simp add: drop_take)
  show "\<exists>data'. prepare_for_update alloc data = Inr (alloc\<lparr>m_file_on_streaming_form := False\<rparr>, data')
             \<and> length data' = length data
             \<and> m_top_ref (read_Header data') ! 0 =
                 footer_top_ref (read_StreamingFooter (drop (m_baseline alloc - 16) data))
             \<and> take 16 (drop (m_baseline alloc - 16) data') = replicate 16 0
             \<and> drop 8 (take 24 data') = drop 8 (take 24 data)"
    using run len slot zero rest unfolding b_def by blast
qed

theorem prepare_for_update_idempotent_witness:
  "prepare_for_update sample_alloc (sample_header @ sample_footer) =
     Inr (sample_alloc\<lparr>m_file_on_streaming_form := False\<rparr>,
          [0, 4, 0, 0, 0, 0, 0, 0] @ drop 8 sample_header @ replicate 16 0)
   \<and> prepare_for_update (sample_alloc\<lparr>m_file_on_streaming_form := False\<rparr>)
        ([0, 4, 0, 0, 0, 0, 0, 0] @ drop 8 sample_header @ replicate 16 0) =
     Inr (sample_alloc\<lparr>m_file_on_streaming_form := False\<rparr>,
          [0, 4, 0, 0, 0, 0, 0, 0] @ drop 8 sample_header @ replicate 16 0)"
proof -
  have mode: "m_attach_mode sample_alloc = attach_SharedFile
              \<or> m_attach_mode sample_alloc = attach_UnsharedFile"
    by (simp add: sample_alloc_def)
  have first: "prepare_for_update sample_alloc (sample_header @ sample_footer) =
     Inr (sample_alloc\<lparr>m_file_on_streaming_form := False\<rparr>,
          [0, 4, 0, 0, 0, 0, 0, 0] @ drop 8 sample_header @ replicate 16 0)"
    by (simp add: prepare_for_update_def do_prepare_for_update_def sample_alloc_def
        sample_header_def sample_footer_def)
  from prepare_for_update_idempotent [OF mode, of "sample_header @ sample_footer"] first
  show ?thesis
    by blast
qed

end
